theory Spec2Isabelle
  imports Complex_Main "HOL-Library.AList"
begin

section \<open>The sandboxed runtime: rate limiters of \<open>script_runtime.go\<close>\<close>

text \<open>
  A \<open>time.Time\<close> is modelled as a number of nanoseconds on one clock; the zero
  \<open>time.Time\<close> (what a freshly allocated \<open>ScriptRuntime\<close> holds in
  \<open>lastRequestTime\<close> and \<open>lastLogTime\<close>) is \<open>0\<close>. A \<open>time.Duration\<close> is
  a signed 64-bit count of nanoseconds, and \<open>Time.Sub\<close> saturates at its bounds.
  The two counters are Go \<open>int\<close>s; they are modelled as unbounded integers, since
  a counter is set back to 1 at every window reset and wrapping it would take
  \<open>2^63\<close> calls inside one minute.
\<close>

type_synonym time = int

definition Minute :: int where
  "Minute = 60000000000"

definition maxDuration :: int where
  "maxDuration = 9223372036854775807"

definition minDuration :: int where
  "minDuration = - 9223372036854775808"

definition Sub :: "time \<Rightarrow> time \<Rightarrow> int" where
  "Sub t u = (let d = t - u in
     if maxDuration < d then maxDuration
     else if d < minDuration then minDuration
     else d)"

record ScriptRuntime =
  httpRequestCount :: int
  lastRequestTime :: time
  logCount :: int
  lastLogTime :: time

text \<open>The counters of a runtime as \<open>NewScriptRuntime\<close> allocates it: Go zero values.\<close>

definition fresh_runtime :: ScriptRuntime where
  "fresh_runtime = \<lparr> httpRequestCount = 0, lastRequestTime = 0,
                      logCount = 0, lastLogTime = 0 \<rparr>"

text \<open>
  The head of the function returned by \<open>createHTTPRequestFunc\<close>, up to the end of the
  rate-limit block: the argument-count check, then the counter. \<open>now\<close> is the value of
  \<open>time.Now()\<close> read under the mutex, \<open>nargs\<close> is \<open>len(call.Arguments)\<close>.
  \<open>Passed\<close> means that control leaves the block and goes on to the URL gate.
\<close>

datatype check_result = TypeError | RateLimitExceeded | Passed

definition createHTTPRequestFunc ::
  "ScriptRuntime \<Rightarrow> time \<Rightarrow> nat \<Rightarrow> check_result \<times> ScriptRuntime" where
  "createHTTPRequestFunc sr now nargs =
     (if nargs < 1 then (TypeError, sr)
      else if Sub now (lastRequestTime sr) < Minute then
        (let sr' = sr\<lparr> httpRequestCount := httpRequestCount sr + 1 \<rparr> in
         if 10 < httpRequestCount sr' then (RateLimitExceeded, sr') else (Passed, sr'))
      else (Passed, sr\<lparr> httpRequestCount := 1, lastRequestTime := now \<rparr>))"

text \<open>
  The head of the function returned by \<open>createLogFunc\<close>: \<open>Emitted\<close> means that the
  message goes on to truncation and to the process log, \<open>Dropped\<close> that the function
  returned \<open>undefined\<close> from inside the rate-limit block, \<open>NoMessage\<close> that it was
  called without an argument.
\<close>

datatype log_result = NoMessage | Dropped | Emitted

definition createLogFunc ::
  "ScriptRuntime \<Rightarrow> time \<Rightarrow> nat \<Rightarrow> log_result \<times> ScriptRuntime" where
  "createLogFunc sr now nargs =
     (if nargs < 1 then (NoMessage, sr)
      else if Sub now (lastLogTime sr) < Minute then
        (let sr' = sr\<lparr> logCount := logCount sr + 1 \<rparr> in
         if 50 < logCount sr' then (Dropped, sr') else (Emitted, sr'))
      else (Emitted, sr\<lparr> logCount := 1, lastLogTime := now \<rparr>))"

text \<open>
  A run of calls on one runtime, in the order in which they take the mutex. Each call is
  the pair of its clock reading and its argument count. The trace keeps, for every call,
  its outcome and the window anchor (\<open>lastRequestTime\<close>, \<open>lastLogTime\<close>) that the
  runtime holds when the call releases the mutex.
\<close>

fun httpRequest_calls ::
  "ScriptRuntime \<Rightarrow> (time \<times> nat) list \<Rightarrow> (check_result \<times> time) list \<times> ScriptRuntime" where
  "httpRequest_calls sr [] = ([], sr)"
| "httpRequest_calls sr ((now, nargs) # cs) =
     (let (r, sr') = createHTTPRequestFunc sr now nargs;
          (rs, sr'') = httpRequest_calls sr' cs
      in ((r, lastRequestTime sr') # rs, sr''))"

fun log_calls ::
  "ScriptRuntime \<Rightarrow> (time \<times> nat) list \<Rightarrow> (log_result \<times> time) list \<times> ScriptRuntime" where
  "log_calls sr [] = ([], sr)"
| "log_calls sr ((now, nargs) # cs) =
     (let (r, sr') = createLogFunc sr now nargs;
          (rs, sr'') = log_calls sr' cs
      in ((r, lastLogTime sr') # rs, sr''))"

text \<open>The number of calls of a trace that passed (were emitted) under window anchor \<open>a\<close>.\<close>

definition passed_in_window :: "(check_result \<times> time) list \<Rightarrow> time \<Rightarrow> nat" where
  "passed_in_window tr a = length (filter (\<lambda>(r, anchor). r = Passed \<and> anchor = a) tr)"

definition emitted_in_window :: "(log_result \<times> time) list \<Rightarrow> time \<Rightarrow> nat" where
  "emitted_in_window tr a = length (filter (\<lambda>(r, anchor). r = Emitted \<and> anchor = a) tr)"

text \<open>
  The number of calls of a run whose clock reading lies in the sliding window
  \<open>[w, w + Minute)\<close> and that passed the check.
\<close>

definition passed_in_sliding_window :: "ScriptRuntime \<Rightarrow> (time \<times> nat) list \<Rightarrow> time \<Rightarrow> nat" where
  "passed_in_sliding_window sr cs w =
     length (filter (\<lambda>((now, nargs), (r, anchor)). r = Passed \<and> w \<le> now \<and> now < w + Minute)
                    (zip cs (fst (httpRequest_calls sr cs))))"

text \<open>
  What a counting window anchored at \<open>anchor\<close> with counter \<open>count\<close> still lets through
  under anchor \<open>a\<close>: the rest of the limit in the current window, the whole limit in
  a window that can still open, nothing in a window that cannot.
\<close>

definition window_budget :: "int \<Rightarrow> int \<Rightarrow> time \<Rightarrow> time \<Rightarrow> nat" where
  "window_budget limit count anchor a =
     (if a = anchor then nat (limit - count)
      else if anchor + Minute \<le> a then nat limit else 0)"

text \<open>
  Twenty calls with a request object: one that opens a window, nine more 59 seconds
  later, ten more one second after those.
\<close>

definition burst_start :: time where
  "burst_start = 6000000000000"

definition burst_calls :: "(time \<times> nat) list" where
  "burst_calls = (burst_start, 1) # replicate 9 (burst_start + 59000000000, 1)
                   @ replicate 10 (burst_start + 60000000000, 1)"

section \<open>Values that cross the host/sandbox boundary\<close>

text \<open>
  The embedded engine is a library outside the repository. What the host code does with
  a script value is modelled on the kinds of value the engine can hand back: the
  primitive kinds of the language and objects (arrays, functions and promises are
  objects). Numbers are IEEE doubles; the model keeps what \<open>ToBoolean\<close> looks at: not a
  number, an infinity with its sign, or a finite value (the two zeros are one).
\<close>

datatype js_number = NaN | Infinity bool | Finite rat

datatype js_value =
    JSUndefined
  | JSNull
  | JSBoolean bool
  | JSNumber js_number
  | JSString string
  | JSObject

fun ToBoolean :: "js_value \<Rightarrow> bool" where
  "ToBoolean JSUndefined = False"
| "ToBoolean JSNull = False"
| "ToBoolean (JSBoolean b) = b"
| "ToBoolean (JSNumber NaN) = False"
| "ToBoolean (JSNumber (Infinity negative)) = True"
| "ToBoolean (JSNumber (Finite q)) = (q \<noteq> 0)"
| "ToBoolean (JSString s) = (s \<noteq> [])"
| "ToBoolean JSObject = True"

text \<open>
  A call of a script function from the host returns a value and an error: the error is
  set when the function throws. A member of the adapter object is absent (\<open>Get\<close> returns
  \<open>nil\<close>), present but no function (\<open>AssertFunction\<close> fails), or a function.
  \<open>ToObject\<close> on \<open>undefined\<close> or \<open>null\<close> panics with a \<open>TypeError\<close>.
\<close>

datatype 'a js_completion = Throws js_value | Returns 'a

datatype 'f js_member = Absent | NotCallable | Callable 'f

datatype go_panic = PanicTypeError

section \<open>HTTP requests and headers\<close>

text \<open>
  An \<open>http.Header\<close> is a map from canonical names to lists of values: an association
  list with one entry per name, in the order in which a \<open>range\<close> loop visits the map.
  Strings are byte strings.
\<close>

type_synonym Header = "(string \<times> string list) list"

record Request =
  Method :: string
  URL :: string
  Header :: Header
  Query :: "(string \<times> string list) list"

definition isLower :: "char \<Rightarrow> bool" where
  "isLower c = (97 \<le> (of_char c :: nat) \<and> (of_char c :: nat) \<le> 122)"

definition isUpper :: "char \<Rightarrow> bool" where
  "isUpper c = (65 \<le> (of_char c :: nat) \<and> (of_char c :: nat) \<le> 90)"

definition isDigit :: "char \<Rightarrow> bool" where
  "isDigit c = (48 \<le> (of_char c :: nat) \<and> (of_char c :: nat) \<le> 57)"

definition toLower :: nat where
  "toLower = 32"

text \<open>The token bytes of \<open>net/textproto\<close>: letters, digits and \<open>!#$%&'*+-.^_`|~\<close>.\<close>

definition validHeaderFieldByte :: "char \<Rightarrow> bool" where
  "validHeaderFieldByte c =
     (isLower c \<or> isUpper c \<or> isDigit c \<or> c \<in> set ''!#$%&*+-.^_|~''
      \<or> c = CHR 0x27 \<or> c = CHR 0x60)"

text \<open>
  The canonicalising loop of \<open>net/textproto\<close>: upper case at the start and after each
  dash, lower case elsewhere; \<open>upper\<close> is the loop's flag.
\<close>

fun canonicalMIMEHeaderKey :: "bool \<Rightarrow> string \<Rightarrow> string" where
  "canonicalMIMEHeaderKey upper [] = []"
| "canonicalMIMEHeaderKey upper (c # cs) =
     (let c' = (if upper \<and> isLower c then char_of ((of_char c :: nat) - toLower)
                else if \<not> upper \<and> isUpper c then char_of ((of_char c :: nat) + toLower)
                else c)
      in c' # canonicalMIMEHeaderKey (c' = CHR ''-'') cs)"

text \<open>A key with a byte that is no token byte is returned as it is.\<close>

definition CanonicalMIMEHeaderKey :: "string \<Rightarrow> string" where
  "CanonicalMIMEHeaderKey s =
     (if list_all validHeaderFieldByte s then canonicalMIMEHeaderKey True s else s)"

definition Header_Set :: "Header \<Rightarrow> string \<Rightarrow> string \<Rightarrow> Header" where
  "Header_Set h key v = AList.update (CanonicalMIMEHeaderKey key) [v] h"

text \<open>What \<open>h[name]\<close> holds: the list of values, \<open>None\<close> when the map has no such key.\<close>

definition Header_values :: "Header \<Rightarrow> string \<Rightarrow> string list option" where
  "Header_values h name = map_of h name"

text \<open>
  \<open>strings.ToLower\<close>, as far as it decides equality with an ASCII word: ASCII capitals
  go to their small letters, and the two code points outside ASCII whose lower case is
  an ASCII letter (U+0130, bytes C4 B0, to \<open>i\<close>; U+212A, bytes E2 84 AA, to \<open>k\<close>) go to
  it. Any other byte outside ASCII leaves bytes outside ASCII in the result, which is all
  that a comparison with an ASCII word sees; the model keeps such a byte as it is.
\<close>

fun ToLower :: "string \<Rightarrow> string" where
  "ToLower [] = []"
| "ToLower (c # cs) =
     (if c = CHR 0xC4 \<and> take 1 cs = [CHR 0xB0] then CHR ''i'' # ToLower (drop 1 cs)
      else if c = CHR 0xE2 \<and> take 2 cs = [CHR 0x84, CHR 0xAA] then CHR ''k'' # ToLower (drop 2 cs)
      else (if isUpper c then char_of ((of_char c :: nat) + toLower) else c) # ToLower cs)"

definition dangerousHeaders :: "string list" where
  "dangerousHeaders =
     [''host'', ''connection'', ''upgrade'', ''proxy-connection'',
      ''proxy-authenticate'', ''proxy-authorization'', ''te'', ''trailers'',
      ''transfer-encoding'', ''content-length'']"

text \<open>
  \<open>ScriptRuntime.isValidHeaderValue\<close>. The loop over the runes of the value refuses any
  rune below 32 (the tab apart) or above 126; a byte from 128 up decodes to such a rune,
  so the test is one on bytes.
\<close>

definition isValidHeaderValue :: "string \<Rightarrow> string \<Rightarrow> bool" where
  "isValidHeaderValue key v =
     (if 8192 < length v then False
      else if ToLower key \<in> set dangerousHeaders then False
      else list_all (\<lambda>c. \<not> ((of_char c :: nat) < 32 \<or> 126 < (of_char c :: nat))
                          \<or> c = CHR 0x09) v)"

section \<open>The script channel: hooks called on the proxy path\<close>

text \<open>
  The object that \<open>ModifyRequest\<close> and \<open>IsStreamRequest\<close> build for the hook. A header
  or query parameter with several values is passed with its first value, one without
  values is left out.
\<close>

definition first_values :: "(string \<times> string list) list \<Rightarrow> (string \<times> string) list" where
  "first_values m = map (\<lambda>(k, vs). (k, hd vs)) (filter (\<lambda>(k, vs). 0 < length vs) m)"

record js_request =
  js_method :: string
  js_url :: string
  js_headers :: "(string \<times> string) list"
  js_query :: "(string \<times> string) list"

definition request_object :: "Request \<Rightarrow> js_request" where
  "request_object req =
     \<lparr> js_method = Method req, js_url = URL req,
       js_headers = first_values (Header req), js_query = first_values (Query req) \<rparr>"

record js_context =
  ctx_request :: js_request
  body_bytes :: string
  original_url :: string

definition context_object :: "Request \<Rightarrow> string \<Rightarrow> js_context" where
  "context_object req bodyBytes =
     \<lparr> ctx_request = request_object req, body_bytes = bodyBytes, original_url = URL req \<rparr>"

text \<open>
  What \<open>ModifyRequest\<close> reads after the hook has run: the \<open>headers\<close> property of the
  request object. The property is gone (\<open>Get\<close> returns \<open>nil\<close>), is \<open>undefined\<close> or
  \<open>null\<close>, or converts to an object; of an object the code reads \<open>Keys()\<close> and, for each
  key, \<open>Get(key).String()\<close>, so the object is the list of its keys with the string form
  of each value. The hook is modelled by what it leaves in that property; the error it
  may return is dropped by \<open>ModifyRequest\<close>, which goes on to read the property in
  either case.
\<close>

datatype headers_prop = HeadersAbsent | HeadersNullish | HeadersObject "(string \<times> string) list"

text \<open>
  The value returned by \<open>exports()\<close>, with the two members these hooks look up. \<open>'k\<close> and
  \<open>'g\<close> are the JSON images of the API key and of the group.
\<close>

record ('k, 'g) channel_object =
  modifyRequest :: "(js_request \<Rightarrow> 'k \<Rightarrow> 'g \<Rightarrow> headers_prop) js_member"
  isStreamRequest :: "(js_context \<Rightarrow> js_value js_completion) js_member"

datatype ('k, 'g) channel_value = ChannelNullish | ChannelObject "('k, 'g) channel_object"

definition apply_headers :: "(string \<times> string) list \<Rightarrow> Header \<Rightarrow> Header" where
  "apply_headers kvs h = fold (\<lambda>(key, v) h'. Header_Set h' key v) kvs h"

definition ModifyRequest ::
  "('k, 'g) channel_value \<Rightarrow> Request \<Rightarrow> 'k \<Rightarrow> 'g \<Rightarrow> go_panic + Request" where
  "ModifyRequest sc req apiKey grp =
     (case sc of
        ChannelNullish \<Rightarrow> Inl PanicTypeError
      | ChannelObject channelObj \<Rightarrow>
          (case modifyRequest channelObj of
             Absent \<Rightarrow> Inr req
           | NotCallable \<Rightarrow> Inr req
           | Callable modifyCallable \<Rightarrow>
               (case modifyCallable (request_object req) apiKey grp of
                  HeadersAbsent \<Rightarrow> Inr req
                | HeadersNullish \<Rightarrow> Inl PanicTypeError
                | HeadersObject kvs \<Rightarrow> Inr (req\<lparr> Header := apply_headers kvs (Header req) \<rparr>))))"

definition IsStreamRequest ::
  "('k, 'g) channel_value \<Rightarrow> Request \<Rightarrow> string \<Rightarrow> go_panic + bool" where
  "IsStreamRequest sc req bodyBytes =
     (case sc of
        ChannelNullish \<Rightarrow> Inl PanicTypeError
      | ChannelObject channelObj \<Rightarrow>
          (case isStreamRequest channelObj of
             Absent \<Rightarrow> Inr False
           | NotCallable \<Rightarrow> Inr False
           | Callable streamCallable \<Rightarrow>
               (case streamCallable (context_object req bodyBytes) of
                  Throws e \<Rightarrow> Inr False
                | Returns result \<Rightarrow> Inr (ToBoolean result))))"

text \<open>
  Two adapters and a request for the examples below. The first writes a
  \<open>Content-Length\<close> header in \<open>modifyRequest\<close>; the second returns the string \<open>yes\<close>
  from \<open>isStreamRequest\<close>.
\<close>

definition length_writing_hook :: "js_request \<Rightarrow> unit \<Rightarrow> unit \<Rightarrow> headers_prop" where
  "length_writing_hook request apiKey grp =
     HeadersObject (AList.update ''Content-Length'' ''0'' (js_headers request))"

definition length_writing_object :: "(unit, unit) channel_object" where
  "length_writing_object =
     \<lparr> modifyRequest = Callable length_writing_hook, isStreamRequest = Absent \<rparr>"

definition length_writing_adapter :: "(unit, unit) channel_value" where
  "length_writing_adapter = ChannelObject length_writing_object"

definition yes_object :: "(unit, unit) channel_object" where
  "yes_object =
     \<lparr> modifyRequest = Absent,
       isStreamRequest = Callable (\<lambda>context. Returns (JSString ''yes'')) \<rparr>"

definition yes_adapter :: "(unit, unit) channel_value" where
  "yes_adapter = ChannelObject yes_object"

definition example_request :: Request where
  "example_request =
     \<lparr> Method = ''POST'', URL = ''/proxy/g/v1/chat/completions'',
       Header = [(''Content-Length'', [''42'']), (''Accept'', [''*/*'', ''text/plain''])],
       Query = [] \<rparr>"

text \<open>A third adapter, whose \<open>isStreamRequest\<close> throws.\<close>

definition throwing_object :: "(unit, unit) channel_object" where
  "throwing_object =
     \<lparr> modifyRequest = Absent,
       isStreamRequest = Callable (\<lambda>context. Throws (JSString ''boom'')) \<rparr>"

definition throwing_adapter :: "(unit, unit) channel_value" where
  "throwing_adapter = ChannelObject throwing_object"

text \<open>
  The values that a header object holds for the keys whose canonical form is \<open>name\<close>, in
  the order of the object's keys.
\<close>

definition written_values :: "(string \<times> string) list \<Rightarrow> string \<Rightarrow> string list" where
  "written_values kvs name =
     map snd (filter (\<lambda>(key, v). CanonicalMIMEHeaderKey key = name) kvs)"

section \<open>Errors and the outcomes of a call\<close>

text \<open>
  A Go \<open>error\<close> is modelled by how it was made: the sentinel of the store for a
  missing row, an error raised by the store itself, \<open>fmt.Errorf\<close> with a message, or
  \<open>fmt.Errorf("prefix: %w", err)\<close> around another error. \<open>Error\<close> is \<open>err.Error()\<close>.
  The text of a store error is the database driver's own; the model labels it by the
  constraint. Failures of the database connection are not modelled.
\<close>

datatype go_error =
    ErrRecordNotFound
  | ErrDatabase string
  | Errorf string
  | Wrapped string go_error

fun Error :: "go_error \<Rightarrow> string" where
  "Error ErrRecordNotFound = ''record not found''"
| "Error (ErrDatabase m) = m"
| "Error (Errorf m) = m"
| "Error (Wrapped prefix err) = prefix @ '': '' @ Error err"

text \<open>
  A Go call returns, panics, or does not come back. The validator runs the submitted
  script in the engine with no time limit, so a script that loops keeps the call from
  returning; a panic is not recovered by any function modelled here and passes through
  its callers.
\<close>

datatype 'a go_outcome = Panics | Hangs | Returned 'a

fun and_then :: "'a go_outcome \<Rightarrow> ('a \<Rightarrow> 'b go_outcome) \<Rightarrow> 'b go_outcome" where
  "and_then Panics f = Panics"
| "and_then Hangs f = Hangs"
| "and_then (Returned x) f = f x"

section \<open>The security validator\<close>

text \<open>
  \<open>fmt.Errorf\<close> prints the counts in the messages with \<open>%d\<close>; they are never negative.
\<close>

function decimal :: "nat \<Rightarrow> string" where
  "decimal n =
     (if n < 10 then [''0123456789'' ! n]
      else decimal (n div 10) @ [''0123456789'' ! (n mod 10)])"
  by pat_completeness auto
termination
  by (relation "measure (\<lambda>n. n)") auto

declare decimal.simps [simp del]

definition quoted :: "string \<Rightarrow> string" where
  "quoted s = [CHR 0x27] @ s @ [CHR 0x27]"

text \<open>
  What the validator can see of a script value: \<open>undefined\<close>, \<open>null\<close>, or any other value,
  of which it asks whether it is a function (\<open>goja.AssertFunction\<close>) and reads properties
  through \<open>ToObject\<close> and \<open>Object.Get\<close>. \<open>Get\<close> gives \<open>nil\<close> (\<open>None\<close>) for a property that
  does not exist; it runs the getter of an accessor property, and panics when the
  getter throws. \<open>ToObject\<close> panics on \<open>undefined\<close> and \<open>null\<close> and returns an object for
  every other value, never \<open>nil\<close>.
\<close>

datatype vm_value =
    Undefined
  | Null
  | Value bool "string \<Rightarrow> vm_value option go_outcome"

type_synonym vm_object = "string \<Rightarrow> vm_value option go_outcome"

fun AssertFunction :: "vm_value \<Rightarrow> bool" where
  "AssertFunction (Value callable properties) = callable"
| "AssertFunction v = False"

fun IsUndefined :: "vm_value \<Rightarrow> bool" where
  "IsUndefined Undefined = True"
| "IsUndefined v = False"

fun ToObject :: "vm_value \<Rightarrow> vm_object go_outcome" where
  "ToObject Undefined = Panics"
| "ToObject Null = Panics"
| "ToObject (Value callable properties) = Returned properties"

text \<open>
  A VM after the script has run in it: \<open>vm.Get\<close> reads a global (\<open>nil\<close> when there is
  none of that name; it panics when reading it throws) and \<open>vm.RunString\<close> runs a further
  text in the same VM, returning the error of the run or its value. The validator runs
  one further text, \<open>exports()\<close>. Script code runs in both, so neither need return.
\<close>

record vm =
  Get :: "string \<Rightarrow> vm_value option go_outcome"
  RunString :: "string \<Rightarrow> (go_error + vm_value) go_outcome"

text \<open>
  The libraries that the validator calls are outside the repository and are
  parameters of the model: \<open>regexp.MatchString\<close>; the matches that
  \<open>regexp.MustCompile(pattern).FindAllString(s, -1)\<close> lists; and the engine.
  \<open>goja_New_RunString w script\<close> is \<open>goja.New()\<close> followed by the first \<open>vm.RunString(script)\<close>:
  the error of the run, or the VM that the script leaves behind. A script can call
  \<open>Math.random\<close> and read the clock (\<open>Date\<close>); \<open>w\<close> stands for what the engine reads from
  outside the program during the life of that VM, the values of the process-wide random
  source and of the clock, which are no argument of any Go function here.
\<close>

record 'w library =
  regexp_MatchString :: "string \<Rightarrow> string \<Rightarrow> go_error + bool"
  regexp_FindAllString :: "string \<Rightarrow> string \<Rightarrow> string list"
  goja_New_RunString :: "'w \<Rightarrow> string \<Rightarrow> (go_error + vm) go_outcome"

record ScriptSecurityValidator =
  forbiddenPatterns :: "string list"
  maxScriptSize :: nat

text \<open>
  The patterns of \<open>NewScriptSecurityValidator\<close>. A string literal cannot hold a backslash:
  the patterns are written with \<open>/\<close> in its place (no pattern contains a slash), and
  \<open>pattern\<close> puts the backslash back.
\<close>

definition pattern :: "string \<Rightarrow> string" where
  "pattern text = map (\<lambda>c. if c = CHR ''/'' then CHR 0x5C else c) text"

definition NewScriptSecurityValidator :: ScriptSecurityValidator where
  "NewScriptSecurityValidator =
     \<lparr> forbiddenPatterns = map pattern
         [''eval/s*/('',
          ''Function/s*/('',
          ''setTimeout/s*/('',
          ''setInterval/s*/('',
          ''setImmediate/s*/('',
          ''require/s*/('',
          ''import/s+.*from'',
          ''import/s*/('',
          ''process/.'',
          ''global/.'',
          ''globalThis/.'',
          ''window/.'',
          ''document/.'',
          ''location/.'',
          ''navigator/.'',
          ''XMLHttpRequest'',
          ''fetch/s*/('',
          ''WebSocket'',
          ''Worker/s*/('',
          ''SharedWorker/s*/('',
          ''ServiceWorker'',
          ''localStorage'',
          ''sessionStorage'',
          ''indexedDB'',
          ''crypto/.subtle'',
          ''performance/.'',
          ''console/.trace'',
          ''console/.profile'',
          ''debugger'',
          ''__proto__'',
          ''constructor/.constructor'',
          ''/.call/s*/(/s*null'',
          ''/.apply/s*/(/s*null'',
          ''/.bind/s*/(/s*null'',
          ''fs/.'',
          ''path/.'',
          ''os/.'',
          ''child_process'',
          ''cluster/.'',
          ''net/.'',
          ''http/.'',
          ''https/.'',
          ''url/.'',
          ''querystring/.'',
          ''new/s+Function'',
          ''/.constructor/s*/('',
          ''String/.fromCharCode'',
          ''String/.fromCodePoint'',
          ''unescape/s*/('',
          ''decodeURI/s*/('',
          ''decodeURIComponent/s*/('',
          ''while/s*/(/s*true/s*/)'',
          ''for/s*/(/s*;/s*;/s*/)'',
          ''setInterval/s*/(/s*.*,/s*0/s*/)''],
       maxScriptSize = 1024 * 1024 \<rparr>"

text \<open>\<open>strings.Split(script, "\n")\<close>: one more piece than there are newlines.\<close>

fun Split_lines :: "string \<Rightarrow> string list" where
  "Split_lines [] = [[]]"
| "Split_lines (c # cs) =
     (if c = CHR 0x0A then [] # Split_lines cs
      else (case Split_lines cs of
              [] \<Rightarrow> [[c]]
            | line # lines \<Rightarrow> (c # line) # lines))"

text \<open>The loop of \<open>validateComplexity\<close> over the lines, with its two counters.\<close>

fun nesting_loop :: "string list \<Rightarrow> int \<Rightarrow> int \<Rightarrow> go_error option" where
  "nesting_loop [] currentNesting maxNesting = None"
| "nesting_loop (line # lines) currentNesting maxNesting =
     (let openBraces = int (count_list line CHR ''{'');
          closeBraces = int (count_list line CHR ''}'');
          currentNesting = currentNesting + (openBraces - closeBraces);
          maxNesting = (if currentNesting > maxNesting then currentNesting else maxNesting)
      in if maxNesting > 20
         then Some (Errorf (''script too complex: excessive nesting depth ('' @
                 decimal (nat maxNesting) @ '' levels)''))
         else nesting_loop lines currentNesting maxNesting)"

definition validateComplexity :: "'w library \<Rightarrow> string \<Rightarrow> go_error option" where
  "validateComplexity lib script =
     (let lines = Split_lines script
      in if length lines > 10000
         then Some (Errorf (''script too complex: '' @ decimal (length lines) @
                 '' lines (max 10000)''))
         else (case nesting_loop lines 0 0 of
                 Some err \<Rightarrow> Some err
               | None \<Rightarrow>
                   (let functionCount =
                      length (regexp_FindAllString lib (pattern ''function/s+/w+'') script)
                    in if functionCount > 100
                       then Some (Errorf (''script too complex: too many functions ('' @
                               decimal functionCount @ '', max 100)''))
                       else None)))"

definition validateSyntax :: "'w library \<Rightarrow> 'w \<Rightarrow> string \<Rightarrow> go_error option go_outcome" where
  "validateSyntax lib w script =
     and_then (goja_New_RunString lib w script) (\<lambda>run.
       case run of
         Inl err \<Rightarrow> Returned (Some (Wrapped ''syntax error'' err))
       | Inr vm \<Rightarrow> Returned None)"

definition requiredMethods :: "string list" where
  "requiredMethods =
     [''buildUpstreamURL'', ''modifyRequest'', ''isStreamRequest'', ''extractModel'',
      ''validateKey'']"

definition requiredMetadataFields :: "string list" where
  "requiredMetadataFields = [''name'', ''version'', ''description'', ''author'', ''channel_type'']"

fun methods_loop :: "vm_object \<Rightarrow> string list \<Rightarrow> go_error option go_outcome" where
  "methods_loop channelObj [] = Returned None"
| "methods_loop channelObj (method # rest) =
     and_then (channelObj method) (\<lambda>methodValue.
       case methodValue of
         None \<Rightarrow> Returned (Some (Errorf (''missing required method: '' @ method)))
       | Some f \<Rightarrow>
           if \<not> AssertFunction f
           then Returned (Some (Errorf (quoted method @ '' must be a function'')))
           else methods_loop channelObj rest)"

fun fields_loop :: "vm_object \<Rightarrow> string list \<Rightarrow> go_error option go_outcome" where
  "fields_loop metadataObj [] = Returned None"
| "fields_loop metadataObj (field # rest) =
     and_then (metadataObj field) (\<lambda>fieldValue.
       if (case fieldValue of None \<Rightarrow> True | Some f \<Rightarrow> IsUndefined f)
       then Returned (Some (Errorf (''missing required metadata field: '' @ field)))
       else fields_loop metadataObj rest)"

text \<open>
  \<open>validateStructure\<close>, in its own VM. The two tests of an object against \<open>nil\<close> after
  \<open>ToObject\<close> have no branch here: \<open>ToObject\<close> returns no \<open>nil\<close>.
\<close>

definition check_metadata :: "vm_object \<Rightarrow> go_error option go_outcome" where
  "check_metadata channelObj =
     and_then (channelObj ''metadata'') (\<lambda>metadataValue.
       case metadataValue of
         None \<Rightarrow> Returned (Some (Errorf (''missing required '' @ quoted ''metadata'' @ '' property'')))
       | Some m \<Rightarrow>
           and_then (ToObject m) (\<lambda>metadataObj.
             fields_loop metadataObj requiredMetadataFields))"

definition check_channel :: "vm_value \<Rightarrow> go_error option go_outcome" where
  "check_channel channelValue =
     and_then (ToObject channelValue) (\<lambda>channelObj.
       and_then (methods_loop channelObj requiredMethods) (\<lambda>missing.
         case missing of
           Some err \<Rightarrow> Returned (Some err)
         | None \<Rightarrow> check_metadata channelObj))"

definition validateStructure :: "'w library \<Rightarrow> 'w \<Rightarrow> string \<Rightarrow> go_error option go_outcome" where
  "validateStructure lib w script =
     and_then (goja_New_RunString lib w script) (\<lambda>run.
       case run of
         Inl err \<Rightarrow> Returned (Some (Wrapped ''script execution failed'' err))
       | Inr vm \<Rightarrow>
           and_then (Get vm ''exports'') (\<lambda>exportFunc.
             case exportFunc of
               None \<Rightarrow>
                 Returned (Some (Errorf (''script must define an '' @ quoted ''exports'' @
                                         '' function'')))
             | Some f \<Rightarrow>
                 if \<not> AssertFunction f
                 then Returned (Some (Errorf (quoted ''exports'' @ '' must be a function'')))
                 else and_then (RunString vm ''exports()'') (\<lambda>called.
                        case called of
                          Inl err \<Rightarrow> Returned (Some (Wrapped ''exports() function failed'' err))
                        | Inr channelValue \<Rightarrow> check_channel channelValue)))"

text \<open>The loop of \<open>ValidateScript\<close> over the forbidden patterns.\<close>

fun forbidden_loop :: "'w library \<Rightarrow> string list \<Rightarrow> string \<Rightarrow> go_error option" where
  "forbidden_loop lib [] script = None"
| "forbidden_loop lib (p # patterns) script =
     (case regexp_MatchString lib p script of
        Inl err \<Rightarrow> forbidden_loop lib patterns script
      | Inr matched \<Rightarrow>
          if matched then Some (Errorf (''script contains forbidden pattern: '' @ p))
          else forbidden_loop lib patterns script)"

text \<open>
  \<open>ValidateScript\<close>. The validator is read, never written, and the script text is the
  only argument: the metadata of a request is no input. \<open>w1\<close> and \<open>w2\<close> are what the
  engine reads from outside during the run of \<open>validateSyntax\<close> and during that of
  \<open>validateStructure\<close>. \<open>static_checks\<close> names the checks that come before the script
  is run.
\<close>

definition ValidateScript ::
  "ScriptSecurityValidator \<Rightarrow> 'w library \<Rightarrow> 'w \<Rightarrow> 'w \<Rightarrow> string \<Rightarrow> go_error option go_outcome" where
  "ValidateScript v lib w1 w2 script =
     (if length script > maxScriptSize v
      then Returned (Some (Errorf (''script too large: '' @ decimal (length script) @
                             '' bytes (max '' @ decimal (maxScriptSize v) @ '' bytes)'')))
      else (case forbidden_loop lib (forbiddenPatterns v) script of
              Some err \<Rightarrow> Returned (Some err)
            | None \<Rightarrow>
                (case validateComplexity lib script of
                   Some err \<Rightarrow> Returned (Some err)
                 | None \<Rightarrow>
                     and_then (validateSyntax lib w1 script) (\<lambda>syntax.
                       case syntax of
                         Some err \<Rightarrow> Returned (Some err)
                       | None \<Rightarrow> validateStructure lib w2 script))))"

definition static_checks :: "ScriptSecurityValidator \<Rightarrow> 'w library \<Rightarrow> string \<Rightarrow> go_error option" where
  "static_checks v lib script =
     (if length script > maxScriptSize v
      then Some (Errorf (''script too large: '' @ decimal (length script) @
                   '' bytes (max '' @ decimal (maxScriptSize v) @ '' bytes)''))
      else (case forbidden_loop lib (forbiddenPatterns v) script of
              Some err \<Rightarrow> Some err
            | None \<Rightarrow> validateComplexity lib script))"

section \<open>The catalogue: \<open>channel_scripts\<close> rows, the store and \<open>ScriptService\<close>\<close>

text \<open>
  A row of the catalogue, with the fields of \<open>models.ChannelScript\<close> that the service,
  the handler and the factory read or write. \<open>Metadata\<close> and \<open>Config\<close> hold JSON text.
\<close>

record ChannelScript =
  ID :: nat
  Name :: string
  DisplayName :: string
  Description :: string
  Author :: string
  Version :: string
  ChannelType :: string
  Script :: string
  Metadata :: string
  Config :: string
  Status :: string
  ErrorMsg :: string
  LastError :: "time option"
  CreatedAt :: time
  UpdatedAt :: time

text \<open>
  Modelled from the spec: the uniqueness constraints of the \<open>channel_scripts\<close> table. The
  declaration of \<open>models.ChannelScript\<close>, which carries them, is not among the sources;
  the spec's data model gives the name and the channel type as unique. The constraints
  are a parameter of the store, so that what the service code does is visible with and
  without them.
\<close>

record schema =
  unique_name :: bool
  unique_channel_type :: bool

definition spec_schema :: schema where
  "spec_schema = \<lparr> unique_name = True, unique_channel_type = True \<rparr>"

text \<open>
  \<open>db.Where(...).First(&row)\<close>: of the rows that match, the one with the least primary
  key; \<open>None\<close> stands for \<open>gorm.ErrRecordNotFound\<close>.
\<close>

definition db_first :: "(ChannelScript \<Rightarrow> bool) \<Rightarrow> ChannelScript list \<Rightarrow> ChannelScript option" where
  "db_first P rows =
     (case filter P rows of
        [] \<Rightarrow> None
      | r # rs \<Rightarrow> Some (fold (\<lambda>x m. if ID x < ID m then x else m) rs r))"

text \<open>
  \<open>db.Create(script)\<close>: a zero primary key is replaced by the next one, zero timestamps
  by the current time; the row is refused when it breaks the primary key or a
  uniqueness constraint of the schema.
\<close>

definition db_create ::
  "schema \<Rightarrow> ChannelScript list \<Rightarrow> time \<Rightarrow> ChannelScript \<Rightarrow> go_error + ChannelScript \<times> ChannelScript list" where
  "db_create sch rows now script =
     (if ID script \<noteq> 0 \<and> list_ex (\<lambda>r. ID r = ID script) rows
        then Inl (ErrDatabase ''duplicate primary key'')
      else if unique_name sch \<and> list_ex (\<lambda>r. Name r = Name script) rows
        then Inl (ErrDatabase ''unique constraint failed: name'')
      else if unique_channel_type sch \<and> list_ex (\<lambda>r. ChannelType r = ChannelType script) rows
        then Inl (ErrDatabase ''unique constraint failed: channel_type'')
      else
        (let row = script\<lparr> ID := (if ID script = 0 then Suc (fold max (map ID rows) 0) else ID script),
                            CreatedAt := (if CreatedAt script = 0 then now else CreatedAt script),
                            UpdatedAt := (if UpdatedAt script = 0 then now else UpdatedAt script) \<rparr>
         in Inr (row, rows @ [row])))"

text \<open>
  The \<open>updates\<close> argument of \<open>UpdateScript\<close>: a map from column names to values
  (\<open>is_map\<close>) or a struct of optional fields, as the handler passes. A column is changed
  when it is present. Under the key \<open>script\<close> a map may hold a value that is no string.
\<close>

datatype patch_value = PString string | PNonString

record patch =
  is_map :: bool
  p_name :: "string option"
  p_display_name :: "string option"
  p_description :: "string option"
  p_author :: "string option"
  p_version :: "string option"
  p_channel_type :: "string option"
  p_script :: "patch_value option"
  p_metadata :: "string option"
  p_config :: "string option"
  p_status :: "string option"

definition or_keep :: "'a option \<Rightarrow> 'a \<Rightarrow> 'a" where
  "or_keep new old = (case new of None \<Rightarrow> old | Some v \<Rightarrow> v)"

definition apply_patch :: "patch \<Rightarrow> time \<Rightarrow> ChannelScript \<Rightarrow> ChannelScript" where
  "apply_patch p now r =
     r\<lparr> Name := or_keep (p_name p) (Name r),
        DisplayName := or_keep (p_display_name p) (DisplayName r),
        Description := or_keep (p_description p) (Description r),
        Author := or_keep (p_author p) (Author r),
        Version := or_keep (p_version p) (Version r),
        ChannelType := or_keep (p_channel_type p) (ChannelType r),
        Script := (case p_script p of Some (PString s) \<Rightarrow> s | _ \<Rightarrow> Script r),
        Metadata := or_keep (p_metadata p) (Metadata r),
        Config := or_keep (p_config p) (Config r),
        Status := or_keep (p_status p) (Status r),
        UpdatedAt := now \<rparr>"

text \<open>
  \<open>db.Model(&script).Updates(updates)\<close>: one \<open>UPDATE\<close> of the row with the primary key
  of \<open>script\<close>. The statement fails as a whole, and changes nothing, when the new name
  or channel type is held by another row and the schema makes the column unique.
\<close>

definition db_updates ::
  "schema \<Rightarrow> ChannelScript list \<Rightarrow> time \<Rightarrow> ChannelScript \<Rightarrow> patch
     \<Rightarrow> go_error + ChannelScript \<times> ChannelScript list" where
  "db_updates sch rows now script p =
     (if unique_name sch \<and>
         (case p_name p of None \<Rightarrow> False
          | Some n \<Rightarrow> list_ex (\<lambda>r. ID r \<noteq> ID script \<and> Name r = n) rows)
        then Inl (ErrDatabase ''unique constraint failed: name'')
      else if unique_channel_type sch \<and>
         (case p_channel_type p of None \<Rightarrow> False
          | Some t \<Rightarrow> list_ex (\<lambda>r. ID r \<noteq> ID script \<and> ChannelType r = t) rows)
        then Inl (ErrDatabase ''unique constraint failed: channel_type'')
      else Inr (apply_patch p now script,
                map (\<lambda>r. if ID r = ID script then apply_patch p now r else r) rows))"

text \<open>
  \<open>ScriptService\<close>. Its validator is the one that \<open>NewScriptService\<close> gives it,
  \<open>NewScriptSecurityValidator()\<close>. Validation comes before every write, so a call that
  panics or does not return has left the catalogue as it was.
\<close>

definition validateScriptSyntax ::
  "'w library \<Rightarrow> 'w \<Rightarrow> 'w \<Rightarrow> ChannelScript \<Rightarrow> go_error option go_outcome" where
  "validateScriptSyntax lib w1 w2 script =
     and_then (ValidateScript NewScriptSecurityValidator lib w1 w2 (Script script)) (\<lambda>result.
       case result of
         Some err \<Rightarrow> Returned (Some (Wrapped ''security validation failed'' err))
       | None \<Rightarrow> Returned None)"

definition already_exists :: "string \<Rightarrow> string" where
  "already_exists channelType =
     ''channel type '' @ [CHR 0x27] @ channelType @ [CHR 0x27] @ '' already exists''"

definition CreateScript ::
  "'w library \<Rightarrow> 'w \<Rightarrow> 'w \<Rightarrow> schema \<Rightarrow> ChannelScript list \<Rightarrow> time \<Rightarrow> ChannelScript
     \<Rightarrow> ((go_error + ChannelScript) \<times> ChannelScript list) go_outcome" where
  "CreateScript lib w1 w2 sch rows now script =
     and_then (validateScriptSyntax lib w1 w2 script) (\<lambda>invalid.
       case invalid of
         Some err \<Rightarrow> Returned (Inl (Wrapped ''script validation failed'' err), rows)
       | None \<Rightarrow>
           (case db_first (\<lambda>r. ChannelType r = ChannelType script) rows of
              Some existing \<Rightarrow> Returned (Inl (Errorf (already_exists (ChannelType script))), rows)
            | None \<Rightarrow>
                (case db_create sch rows now script of
                   Inl err \<Rightarrow> Returned (Inl err, rows)
                 | Inr (row, rows') \<Rightarrow> Returned (Inr row, rows'))))"

text \<open>
  \<open>UpdateScript\<close>. The type assertion \<open>newScript.(string)\<close> panics on a value that is no
  string. No channel type is compared here: the patch goes to the store as it is.
\<close>

definition UpdateScript ::
  "'w library \<Rightarrow> 'w \<Rightarrow> 'w \<Rightarrow> schema \<Rightarrow> ChannelScript list \<Rightarrow> time \<Rightarrow> nat \<Rightarrow> patch
     \<Rightarrow> ((go_error + ChannelScript) \<times> ChannelScript list) go_outcome" where
  "UpdateScript lib w1 w2 sch rows now ident p =
     (case db_first (\<lambda>r. ID r = ident) rows of
        None \<Rightarrow> Returned (Inl ErrRecordNotFound, rows)
      | Some script \<Rightarrow>
          (let finish =
             (case db_updates sch rows now script p of
                Inl err \<Rightarrow> Returned (Inl err, rows)
              | Inr (script', rows') \<Rightarrow> Returned (Inr script', rows'))
           in if is_map p then
                (case p_script p of
                   None \<Rightarrow> finish
                 | Some PNonString \<Rightarrow> Panics
                 | Some (PString newScript) \<Rightarrow>
                     and_then (validateScriptSyntax lib w1 w2 (script\<lparr> Script := newScript \<rparr>))
                       (\<lambda>invalid.
                          case invalid of
                            Some err \<Rightarrow>
                              Returned (Inl (Wrapped ''script validation failed'' err), rows)
                          | None \<Rightarrow> finish))
              else finish))"



section \<open>The admin handler for \<open>POST /scripts\<close>\<close>

text \<open>
  The body of the request as \<open>ShouldBindJSON\<close> delivers it (\<open>Inl\<close> when binding fails);
  metadata and config are kept as the JSON text that \<open>json.Marshal\<close> makes of them
  (it does not fail on values that were decoded from JSON, so the two branches for its
  error are left out). The error kinds are those of \<open>app_errors\<close> that the handler
  names; the answer is what \<open>response.Error\<close> or \<open>response.Success\<close> is called with.
\<close>

record create_request =
  req_name :: string
  req_display_name :: string
  req_description :: string
  req_author :: string
  req_version :: string
  req_channel_type :: string
  req_script :: string
  req_metadata :: string
  req_config :: string

datatype api_error_kind =
  ErrInternalServer | ErrBadRequest | ErrValidation | ErrInvalidJSON | ErrResourceNotFound

datatype 'a response = ResponseSuccess 'a | ResponseError api_error_kind string

text \<open>The row that the handler fills from the request: no id yet, status \<open>disabled\<close>.\<close>

definition script_of_request :: "create_request \<Rightarrow> ChannelScript" where
  "script_of_request req =
     \<lparr> ID = 0, Name = req_name req, DisplayName = req_display_name req,
       Description = req_description req, Author = req_author req,
       Version = req_version req, ChannelType = req_channel_type req,
       Script = req_script req, Metadata = req_metadata req,
       Config = req_config req, Status = ''disabled'', ErrorMsg = [],
       LastError = None, CreatedAt = 0, UpdatedAt = 0 \<rparr>"

definition handler_CreateScript ::
  "'w library \<Rightarrow> 'w \<Rightarrow> 'w \<Rightarrow> schema \<Rightarrow> ChannelScript list \<Rightarrow> time \<Rightarrow> string + create_request
     \<Rightarrow> (ChannelScript response \<times> ChannelScript list) go_outcome" where
  "handler_CreateScript lib w1 w2 sch rows now bound =
     (case bound of
        Inl err \<Rightarrow> Returned (ResponseError ErrInvalidJSON err, rows)
      | Inr req \<Rightarrow>
          and_then (CreateScript lib w1 w2 sch rows now (script_of_request req)) (\<lambda>created.
            case created of
              (Inl err, rows') \<Rightarrow>
                Returned (ResponseError ErrInternalServer ''Failed to create script'', rows')
            | (Inr createdScript, rows') \<Rightarrow> Returned (ResponseSuccess createdScript, rows')))"

section \<open>The channel factory\<close>

text \<open>
  A group, with the fields that the factory reads. A channel instance is a value of a
  type \<open>'c\<close> that the model leaves open: building one runs the script engine and sets up
  HTTP clients. The \<open>host\<close> record collects what the factory and the script manager call
  outside the sources at hand: \<open>NewScriptChannel\<close> and \<open>NewScriptRuntime\<close> (they compile
  the script; \<open>None\<close> of the latter is success), \<open>IsConfigStale\<close> of the base channel,
  \<open>sha256_hex\<close> and \<open>format_RFC3339\<close> of the Go library.
\<close>

record Group =
  group_ID :: nat
  group_Name :: string
  group_ChannelType :: string
  group_Upstreams :: string
  group_TestModel :: string
  group_ValidationEndpoint :: string

record 'c host =
  NewScriptChannel :: "Group \<Rightarrow> ChannelScript \<Rightarrow> go_error + 'c"
  NewScriptRuntime :: "ChannelScript \<Rightarrow> go_error option"
  IsConfigStale :: "'c \<Rightarrow> Group \<Rightarrow> bool"
  sha256_hex :: "string \<Rightarrow> string"
  format_RFC3339 :: "time \<Rightarrow> string"

text \<open>
  The factory: the store handle, the instance cache keyed by group id, and the two
  registries of constructors keyed by channel type. \<open>staticChannels\<close> is the
  package-level \<open>channelRegistry\<close>.
\<close>

record 'c Factory =
  db :: "ChannelScript list"
  channelCache :: "nat \<rightharpoonup> 'c"
  staticChannels :: "string \<rightharpoonup> (Group \<Rightarrow> go_error + 'c)"
  dynamicChannels :: "string \<rightharpoonup> (Group \<Rightarrow> go_error + 'c)"



definition InvalidateCache :: "'c Factory \<Rightarrow> nat \<Rightarrow> 'c Factory" where
  "InvalidateCache f groupID = f\<lparr> channelCache := (channelCache f)(groupID := None) \<rparr>"

definition InvalidateAllCache :: "'c Factory \<Rightarrow> 'c Factory" where
  "InvalidateAllCache f = f\<lparr> channelCache := Map.empty \<rparr>"

text \<open>
  The \<open>Updates\<close> call of \<open>createScriptChannel\<close>: status, message and time of the error
  are written to the row of the script; the error that the call may return is dropped.
\<close>

definition mark_error :: "time \<Rightarrow> go_error \<Rightarrow> ChannelScript \<Rightarrow> ChannelScript" where
  "mark_error now err r =
     r\<lparr> Status := ''error'', ErrorMsg := Error err, LastError := Some now, UpdatedAt := now \<rparr>"

definition createScriptChannel ::
  "'c host \<Rightarrow> 'c Factory \<Rightarrow> time \<Rightarrow> Group \<Rightarrow> (go_error + 'c) \<times> 'c Factory" where
  "createScriptChannel h f now grp =
     (case db_first (\<lambda>r. ChannelType r = group_ChannelType grp \<and> Status r = ''enabled'') (db f) of
        None \<Rightarrow>
          (Inl (Errorf (''no enabled script found for channel type: '' @ group_ChannelType grp)), f)
      | Some script \<Rightarrow>
          (case NewScriptChannel h grp script of
             Inl err \<Rightarrow>
               (Inl (Wrapped ''failed to create script channel'' err),
                f\<lparr> db := map (\<lambda>r. if ID r = ID script then mark_error now err r else r) (db f) \<rparr>)
           | Inr scriptChannel \<Rightarrow> (Inr scriptChannel, f)))"

definition cache_hit :: "'c host \<Rightarrow> 'c Factory \<Rightarrow> Group \<Rightarrow> 'c option" where
  "cache_hit h f grp =
     (case channelCache f (group_ID grp) of
        None \<Rightarrow> None
      | Some channel \<Rightarrow> if IsConfigStale h channel grp then None else Some channel)"

definition store_channel :: "'c Factory \<Rightarrow> Group \<Rightarrow> go_error + 'c \<Rightarrow> (go_error + 'c) \<times> 'c Factory" where
  "store_channel f grp made =
     (case made of
        Inl err \<Rightarrow> (Inl err, f)
      | Inr channel \<Rightarrow>
          (Inr channel, f\<lparr> channelCache := (channelCache f)(group_ID grp \<mapsto> channel) \<rparr>))"

definition GetChannel ::
  "'c host \<Rightarrow> 'c Factory \<Rightarrow> time \<Rightarrow> Group \<Rightarrow> (go_error + 'c) \<times> 'c Factory" where
  "GetChannel h f now grp =
     (case cache_hit h f grp of
        Some channel \<Rightarrow> (Inr channel, f)
      | None \<Rightarrow>
          (case dynamicChannels f (group_ChannelType grp) of
             Some dynamicConstructor \<Rightarrow> store_channel f grp (dynamicConstructor grp)
           | None \<Rightarrow>
               (case staticChannels f (group_ChannelType grp) of
                  Some constructor \<Rightarrow> store_channel f grp (constructor grp)
                | None \<Rightarrow>
                    (case createScriptChannel h f now grp of
                       (Inl err, f') \<Rightarrow>
                         (Inl (Wrapped (''unsupported channel type '' @ [CHR 0x27]
                                          @ group_ChannelType grp @ [CHR 0x27]
                                          @ '' and no script found'') err), f')
                     | (Inr scriptChannel, f') \<Rightarrow> store_channel f' grp (Inr scriptChannel)))))"

section \<open>The script manager: reload passes\<close>




definition scriptConstructor :: "'c host \<Rightarrow> ChannelScript \<Rightarrow> Group \<Rightarrow> go_error + 'c" where
  "scriptConstructor h script grp = NewScriptChannel h grp script"









section \<open>Stand-ins for the libraries, and example scripts\<close>

text \<open>
  A matcher for the examples. It covers the syntax that the validator's patterns use:
  literal characters, escaped characters, \<open>\s\<close>, \<open>\w\<close>, the dot (any character but the
  newline), and the postfix \<open>*\<close> and \<open>+\<close>, which take as much as they can and give back
  when the rest of the pattern fails; a match may start anywhere and the leftmost one
  is taken. None of these patterns matches the empty text.
\<close>

datatype char_class = Literal char | Space | Word | AnyChar

fun in_class :: "char_class \<Rightarrow> char \<Rightarrow> bool" where
  "in_class (Literal l) c = (c = l)"
| "in_class Space c = (c \<in> set [CHR 0x09, CHR 0x0A, CHR 0x0C, CHR 0x0D, CHR '' ''])"
| "in_class Word c = (isLower c \<or> isUpper c \<or> isDigit c \<or> c = CHR ''_'')"
| "in_class AnyChar c = (c \<noteq> CHR 0x0A)"

datatype quantifier = Once | Star | Plus

datatype token = Atom char_class | Quantifier quantifier

fun tokens :: "bool \<Rightarrow> string \<Rightarrow> token list" where
  "tokens escaped [] = []"
| "tokens True (c # cs) =
     Atom (if c = CHR ''s'' then Space else if c = CHR ''w'' then Word else Literal c)
       # tokens False cs"
| "tokens False (c # cs) =
     (if c = CHR 0x5C then tokens True cs
      else if c = CHR ''*'' then Quantifier Star # tokens False cs
      else if c = CHR ''+'' then Quantifier Plus # tokens False cs
      else if c = CHR ''.'' then Atom AnyChar # tokens False cs
      else Atom (Literal c) # tokens False cs)"

fun items :: "token list \<Rightarrow> (char_class \<times> quantifier) list" where
  "items [] = []"
| "items (Atom a # Quantifier q # ts) = (a, q) # items ts"
| "items (Atom a # ts) = (a, Once) # items ts"
| "items (Quantifier q # ts) = items ts"

text \<open>The length of the match of the pattern at the start of the text, if there is one.\<close>

fun match_length :: "(char_class \<times> quantifier) list \<Rightarrow> string \<Rightarrow> nat option" where
  "match_length [] s = Some 0"
| "match_length ((a, Once) # p) [] = None"
| "match_length ((a, Once) # p) (c # cs) =
     (if in_class a c then map_option Suc (match_length p cs) else None)"
| "match_length ((a, Plus) # p) [] = None"
| "match_length ((a, Plus) # p) (c # cs) =
     (if in_class a c then map_option Suc (match_length ((a, Star) # p) cs) else None)"
| "match_length ((a, Star) # p) [] = match_length p []"
| "match_length ((a, Star) # p) (c # cs) =
     (case (if in_class a c then map_option Suc (match_length ((a, Star) # p) cs) else None) of
        Some n \<Rightarrow> Some n
      | None \<Rightarrow> match_length p (c # cs))"

fun found :: "nat option \<Rightarrow> bool" where
  "found None = False"
| "found (Some n) = True"

fun match_anywhere :: "(char_class \<times> quantifier) list \<Rightarrow> string \<Rightarrow> bool" where
  "match_anywhere p [] = found (match_length p [])"
| "match_anywhere p (c # cs) = (found (match_length p (c # cs)) \<or> match_anywhere p cs)"

text \<open>The matches from left to right, none overlapping: \<open>skip\<close> characters belong to the last one.\<close>

fun find_all :: "(char_class \<times> quantifier) list \<Rightarrow> nat \<Rightarrow> string \<Rightarrow> string list" where
  "find_all p skip [] = []"
| "find_all p (Suc skip) (c # cs) = find_all p skip cs"
| "find_all p 0 (c # cs) =
     (case match_length p (c # cs) of
        None \<Rightarrow> find_all p 0 cs
      | Some n \<Rightarrow> take n (c # cs) # find_all p (n - 1) cs)"

text \<open>
  Three adapter scripts. \<open>plain_script\<close> defines \<open>exports\<close>, which returns an object with
  the five hooks and the metadata. \<open>coin_script\<close> is the same adapter behind a line that
  throws when \<open>Math.random()\<close>, a number from 0 up to but not including 1, is below one
  half. The \<open>exports\<close> of \<open>null_script\<close> returns \<open>null\<close>.
\<close>

definition plain_script :: string where
  "plain_script =
     ''function exports() { var hook = function () {}; return { '' @
     ''buildUpstreamURL: hook, modifyRequest: hook, isStreamRequest: hook, '' @
     ''extractModel: hook, validateKey: hook, metadata: { name: 1, version: 1, '' @
     ''description: 1, author: 1, channel_type: 1 } }; }''"

definition coin_script :: string where
  "coin_script = ''if (Math.random() < 0.5) { throw 1; }'' @ [CHR 0x0A] @ plain_script"

definition null_script :: string where
  "null_script = ''function exports() { return null; }''"

text \<open>
  The engine on these scripts, as far as the validator looks. The hidden input of a VM
  is the number that the first \<open>Math.random()\<close> of its life returns. The text of the
  engine's error for the uncaught \<open>throw\<close> is a stand-in, and so is the answer to every
  other text than the three scripts and \<open>exports()\<close>: no example runs one.
\<close>

definition no_properties :: vm_object where
  "no_properties name = Returned None"

definition plain_adapter :: vm_value where
  "plain_adapter =
     Value False (\<lambda>name.
       Returned
         (if name \<in> set requiredMethods then Some (Value True no_properties)
          else if name = ''metadata''
          then Some (Value False (\<lambda>field.
                 Returned (if field \<in> set requiredMetadataFields
                           then Some (Value False no_properties) else None)))
          else None))"

definition loaded_vm :: "vm_value \<Rightarrow> vm" where
  "loaded_vm returned =
     \<lparr> Get = (\<lambda>name. Returned (if name = ''exports'' then Some (Value True no_properties) else None)),
       RunString = (\<lambda>text. Returned (if text = ''exports()'' then Inr returned
                                     else Inl (Errorf ''SyntaxError''))) \<rparr>"

definition demo_goja :: "rat \<Rightarrow> string \<Rightarrow> (go_error + vm) go_outcome" where
  "demo_goja random script =
     (if script = plain_script then Returned (Inr (loaded_vm plain_adapter))
      else if script = coin_script
      then (if random < 1 / 2 then Returned (Inl (Errorf ''1''))
            else Returned (Inr (loaded_vm plain_adapter)))
      else if script = null_script then Returned (Inr (loaded_vm Null))
      else Returned (Inl (Errorf ''SyntaxError'')))"

definition demo_library :: "rat library" where
  "demo_library =
     \<lparr> regexp_MatchString = (\<lambda>p s. Inr (match_anywhere (items (tokens False p)) s)),
       regexp_FindAllString = (\<lambda>p s. find_all (items (tokens False p)) 0 s),
       goja_New_RunString = demo_goja \<rparr>"

section \<open>An example catalogue\<close>

text \<open>
  A host for the examples. Channel instances are strings that name the group and the
  script text they were built from; a script whose text is \<open>bad\<close> fails to build; no
  cached instance is stale; the hash and the time format are stand-ins that keep
  different inputs apart.
\<close>

definition demo_host :: "string host" where
  "demo_host =
     \<lparr> NewScriptChannel = (\<lambda>grp script.
          if Script script = ''bad'' then Inl (Errorf ''failed to create channel instance'')
          else Inr (group_Name grp @ '':'' @ Script script)),
       NewScriptRuntime = (\<lambda>script.
          if Script script = ''bad'' then Some (Errorf ''failed to load script'') else None),
       IsConfigStale = (\<lambda>channel grp. False),
       sha256_hex = (\<lambda>script. script),
       format_RFC3339 = (\<lambda>t. replicate (nat t) CHR ''t'') \<rparr>"

definition grok_v1 :: ChannelScript where
  "grok_v1 =
     \<lparr> ID = 1, Name = ''grok'', DisplayName = ''Grok'', Description = [], Author = [],
       Version = ''1.0.0'', ChannelType = ''grok'', Script = ''v1'', Metadata = ''{}'',
       Config = [], Status = ''enabled'', ErrorMsg = [], LastError = None,
       CreatedAt = 1, UpdatedAt = 1 \<rparr>"

definition grok_v2 :: ChannelScript where
  "grok_v2 = grok_v1\<lparr> Script := ''v2'', UpdatedAt := 2 \<rparr>"

definition grok_bad :: ChannelScript where
  "grok_bad = grok_v1\<lparr> Script := ''bad'' \<rparr>"

definition other_script :: ChannelScript where
  "other_script =
     grok_v1\<lparr> ID := 2, Name := ''tavily'', ChannelType := ''tavily_search'',
              Status := ''disabled'' \<rparr>"

definition demo_group :: Group where
  "demo_group =
     \<lparr> group_ID = 7, group_Name = ''g'', group_ChannelType = ''grok'',
       group_Upstreams = [], group_TestModel = [], group_ValidationEndpoint = [] \<rparr>"

text \<open>
  A factory that has loaded \<open>grok_v1\<close> and cached an instance for the group, while the
  catalogue already holds the updated script \<open>grok_v2\<close>; and the manager that goes with it.
\<close>

definition demo_factory :: "string Factory" where
  "demo_factory =
     \<lparr> db = [grok_v2, other_script],
       channelCache = [7 \<mapsto> ''g:v1''],
       staticChannels = Map.empty,
       dynamicChannels = [''grok'' \<mapsto> scriptConstructor demo_host grok_v1] \<rparr>"


text \<open>A factory without constructors whose catalogue holds a script that fails to build.\<close>

definition lazy_factory :: "string Factory" where
  "lazy_factory =
     \<lparr> db = [grok_bad, other_script], channelCache = Map.empty,
       staticChannels = Map.empty, dynamicChannels = Map.empty \<rparr>"

definition grok_request :: create_request where
  "grok_request =
     \<lparr> req_name = ''grok-two'', req_display_name = ''Grok'', req_description = [],
       req_author = [], req_version = ''1.0.0'', req_channel_type = ''grok'',
       req_script = plain_script, req_metadata = ''{}'', req_config = [] \<rparr>"

text \<open>A patch, as a map, that moves a script to the channel type \<open>grok\<close>.\<close>

definition to_grok :: patch where
  "to_grok =
     \<lparr> is_map = True, p_name = None, p_display_name = None, p_description = None,
       p_author = None, p_version = None, p_channel_type = Some ''grok'', p_script = None,
       p_metadata = None, p_config = None, p_status = None \<rparr>"

section \<open>Properties of the rate limiters\<close>

lemma Sub_less_Minute: "Sub t u < Minute \<longleftrightarrow> t - u < Minute"
  by (simp add: Sub_def Minute_def maxDuration_def minDuration_def Let_def)

lemma fresh_runtime_sel:
  "httpRequestCount fresh_runtime = 0" "lastRequestTime fresh_runtime = 0"
  "logCount fresh_runtime = 0" "lastLogTime fresh_runtime = 0"
  by (simp_all add: fresh_runtime_def)

lemma Minute_pos: "0 < Minute"
  by (simp add: Minute_def)

lemma http_step_reset:
  "1 \<le> nargs \<Longrightarrow> Minute \<le> now - lastRequestTime sr \<Longrightarrow>
   createHTTPRequestFunc sr now nargs =
     (Passed, sr\<lparr> httpRequestCount := 1, lastRequestTime := now \<rparr>)"
  by (simp add: createHTTPRequestFunc_def Sub_less_Minute)

lemma http_step_count:
  "1 \<le> nargs \<Longrightarrow> now - lastRequestTime sr < Minute \<Longrightarrow>
   createHTTPRequestFunc sr now nargs =
     (if 10 < httpRequestCount sr + 1 then RateLimitExceeded else Passed,
      sr\<lparr> httpRequestCount := httpRequestCount sr + 1 \<rparr>)"
  by (simp add: createHTTPRequestFunc_def Sub_less_Minute Let_def)

lemma log_step_reset:
  "1 \<le> nargs \<Longrightarrow> Minute \<le> now - lastLogTime sr \<Longrightarrow>
   createLogFunc sr now nargs = (Emitted, sr\<lparr> logCount := 1, lastLogTime := now \<rparr>)"
  by (simp add: createLogFunc_def Sub_less_Minute)

lemma log_step_count:
  "1 \<le> nargs \<Longrightarrow> now - lastLogTime sr < Minute \<Longrightarrow>
   createLogFunc sr now nargs =
     (if 50 < logCount sr + 1 then Dropped else Emitted,
      sr\<lparr> logCount := logCount sr + 1 \<rparr>)"
  by (simp add: createLogFunc_def Sub_less_Minute Let_def)

lemma http_calls_append:
  "httpRequest_calls sr (xs @ ys) =
     (let (r1, s1) = httpRequest_calls sr xs; (r2, s2) = httpRequest_calls s1 ys
      in (r1 @ r2, s2))"
  by (induction xs arbitrary: sr) (auto split: prod.splits)

text \<open>Inside one window, calls pass as long as the counter stays within the limit.\<close>

lemma http_calls_all_pass:
  "\<forall>c \<in> set cs. fst c - lastRequestTime sr < Minute \<and> 1 \<le> snd c \<Longrightarrow>
   httpRequestCount sr + int (length cs) \<le> 10 \<Longrightarrow>
   httpRequest_calls sr cs =
     (map (\<lambda>c. (Passed, lastRequestTime sr)) cs,
      sr\<lparr> httpRequestCount := httpRequestCount sr + int (length cs) \<rparr>)"
proof (induction cs arbitrary: sr)
  case Nil
  then show ?case by simp
next
  case (Cons c cs)
  obtain now nargs where c: "c = (now, nargs)" by (cases c)
  from Cons.prems c have h: "1 \<le> nargs" "now - lastRequestTime sr < Minute" by auto
  let ?sr = "sr\<lparr> httpRequestCount := httpRequestCount sr + 1 \<rparr>"
  have ih: "httpRequest_calls ?sr cs =
     (map (\<lambda>c. (Passed, lastRequestTime ?sr)) cs,
      ?sr\<lparr> httpRequestCount := httpRequestCount ?sr + int (length cs) \<rparr>)"
    using Cons.prems by (intro Cons.IH) auto
  have small: "\<not> 10 < httpRequestCount sr + 1" using Cons.prems(2) by simp
  show ?case
    unfolding c using small
    by (simp add: http_step_count [OF h] ih add.assoc)
qed

text \<open>
  C7. A freshly constructed runtime, eleven \<open>utils.httpRequest\<close> calls that carry a
  request object, the first made at least a minute after the zero \<open>time.Time\<close> (any
  real clock reading is) and the other ten less than 60 seconds after the first: the
  first ten pass the rate-limit check and the eleventh raises the host error.
\<close>

theorem eleventh_request_rate_limited:
  assumes "Minute \<le> t1" and "1 \<le> n1" and "length cs = 9"
    and "\<forall>c \<in> set cs. fst c - t1 < Minute \<and> 1 \<le> snd c"
    and "t11 - t1 < Minute" and "1 \<le> n11"
  shows "map fst (fst (httpRequest_calls fresh_runtime ((t1, n1) # cs @ [(t11, n11)])))
         = replicate 10 Passed @ [RateLimitExceeded]"
proof -
  define s1 where "s1 = fresh_runtime\<lparr> httpRequestCount := 1, lastRequestTime := t1 \<rparr>"
  define s10 where "s10 = s1\<lparr> httpRequestCount := httpRequestCount s1 + int (length cs) \<rparr>"
  define s11 where "s11 = s10\<lparr> httpRequestCount := httpRequestCount s10 + 1 \<rparr>"
  have first: "createHTTPRequestFunc fresh_runtime t1 n1 = (Passed, s1)"
    unfolding s1_def using assms(1,2)
    by (intro http_step_reset) (simp_all add: fresh_runtime_def)
  have mid: "httpRequest_calls s1 cs = (map (\<lambda>c. (Passed, lastRequestTime s1)) cs, s10)"
    unfolding s10_def using assms(3,4)
    by (intro http_calls_all_pass) (simp_all add: s1_def)
  have last: "createHTTPRequestFunc s10 t11 n11 = (RateLimitExceeded, s11)"
    unfolding s11_def using assms(3,5,6)
    by (subst http_step_count) (simp_all add: s10_def s1_def)
  have "httpRequest_calls fresh_runtime ((t1, n1) # cs @ [(t11, n11)]) =
        ((Passed, lastRequestTime s1) # map (\<lambda>c. (Passed, lastRequestTime s1)) cs
           @ [(RateLimitExceeded, lastRequestTime s11)], s11)"
    by (simp add: first http_calls_append mid last)
  moreover have "replicate 10 Passed = Passed # replicate 9 Passed"
    by (simp add: numeral_eq_Suc)
  ultimately show ?thesis
    using assms(3) by (simp add: o_def map_replicate_const)
qed

theorem eleventh_request_rate_limited_witness:
  "map fst (fst (httpRequest_calls fresh_runtime
      ((burst_start, 1) # replicate 9 (burst_start + 1000, 1) @ [(burst_start + 2000, 2)])))
   = replicate 10 Passed @ [RateLimitExceeded]"
  using eleventh_request_rate_limited
    [of burst_start 1 "replicate 9 (burst_start + 1000, 1)" "burst_start + 2000" 2]
  by (simp add: Minute_def burst_start_def)

lemma http_step_budget:
  "createHTTPRequestFunc sr now nargs = (r, sr') \<Longrightarrow>
   (if r = Passed \<and> lastRequestTime sr' = a then 1 else 0)
     + window_budget 10 (httpRequestCount sr') (lastRequestTime sr') a
   \<le> window_budget 10 (httpRequestCount sr) (lastRequestTime sr) a"
  using Minute_pos
  by (auto simp: createHTTPRequestFunc_def Sub_less_Minute Let_def window_budget_def
           split: if_splits)

lemma http_calls_budget:
  "passed_in_window (fst (httpRequest_calls sr cs)) a
   \<le> window_budget 10 (httpRequestCount sr) (lastRequestTime sr) a"
proof (induction cs arbitrary: sr)
  case Nil
  then show ?case by (simp add: passed_in_window_def)
next
  case (Cons c cs)
  obtain now nargs where c: "c = (now, nargs)" by (cases c)
  obtain r sr' where step: "createHTTPRequestFunc sr now nargs = (r, sr')"
    by (cases "createHTTPRequestFunc sr now nargs")
  have "passed_in_window (fst (httpRequest_calls sr (c # cs))) a =
        (if r = Passed \<and> lastRequestTime sr' = a then 1 else 0)
          + passed_in_window (fst (httpRequest_calls sr' cs)) a"
    by (simp add: c step passed_in_window_def split: prod.splits)
  also have "\<dots> \<le> (if r = Passed \<and> lastRequestTime sr' = a then 1 else 0)
          + window_budget 10 (httpRequestCount sr') (lastRequestTime sr') a"
    using Cons.IH [of sr'] by simp
  also have "\<dots> \<le> window_budget 10 (httpRequestCount sr) (lastRequestTime sr) a"
    by (rule http_step_budget [OF step])
  finally show ?case .
qed

lemma log_step_budget:
  "createLogFunc sr now nargs = (r, sr') \<Longrightarrow>
   (if r = Emitted \<and> lastLogTime sr' = a then 1 else 0)
     + window_budget 50 (logCount sr') (lastLogTime sr') a
   \<le> window_budget 50 (logCount sr) (lastLogTime sr) a"
  using Minute_pos
  by (auto simp: createLogFunc_def Sub_less_Minute Let_def window_budget_def
           split: if_splits)

lemma log_calls_budget:
  "emitted_in_window (fst (log_calls sr cs)) a
   \<le> window_budget 50 (logCount sr) (lastLogTime sr) a"
proof (induction cs arbitrary: sr)
  case Nil
  then show ?case by (simp add: emitted_in_window_def)
next
  case (Cons c cs)
  obtain now nargs where c: "c = (now, nargs)" by (cases c)
  obtain r sr' where step: "createLogFunc sr now nargs = (r, sr')"
    by (cases "createLogFunc sr now nargs")
  have "emitted_in_window (fst (log_calls sr (c # cs))) a =
        (if r = Emitted \<and> lastLogTime sr' = a then 1 else 0)
          + emitted_in_window (fst (log_calls sr' cs)) a"
    by (simp add: c step emitted_in_window_def split: prod.splits)
  also have "\<dots> \<le> (if r = Emitted \<and> lastLogTime sr' = a then 1 else 0)
          + window_budget 50 (logCount sr') (lastLogTime sr') a"
    using Cons.IH [of sr'] by simp
  also have "\<dots> \<le> window_budget 50 (logCount sr) (lastLogTime sr) a"
    by (rule log_step_budget [OF step])
  finally show ?case .
qed

text \<open>
  C3, as the claim states it, fails. In the run \<open>burst_calls\<close> the nineteen calls made
  59 and 60 seconds after the first all fall into the sliding window that starts at
  second 59, and all nineteen pass: the call at second 60 opens a new counting window
  although the last event before it is one second old.
\<close>

theorem sliding_window_counterexample:
  "passed_in_sliding_window fresh_runtime burst_calls (burst_start + 59000000000) = 19"
  by (simp add: passed_in_sliding_window_def burst_calls_def burst_start_def
        createHTTPRequestFunc_def Sub_def Minute_def maxDuration_def minDuration_def
        fresh_runtime_def numeral_eq_Suc Let_def)

text \<open>
  C3, amended. The limiter counts in fixed windows. A call that carries an argument
  opens a new window (counter 1, anchor at its own clock reading) exactly when it comes
  a minute or more after the anchor of the current window, which is the first event of
  that window and not the last one; otherwise it adds one to the counter and is refused
  (dropped) once the counter exceeds the limit. In every run from a fresh runtime, at
  most 10 \<open>utils.httpRequest\<close> calls pass and at most 50 log messages are emitted
  under any one window anchor.
\<close>

theorem fixed_window_limits:
  "passed_in_window (fst (httpRequest_calls fresh_runtime cs)) a \<le> 10 \<and>
   emitted_in_window (fst (log_calls fresh_runtime cs')) a' \<le> 50 \<and>
   (1 \<le> nargs \<longrightarrow>
      createHTTPRequestFunc sr now nargs =
        (if Minute \<le> now - lastRequestTime sr
         then (Passed, sr\<lparr> httpRequestCount := 1, lastRequestTime := now \<rparr>)
         else (if 10 < httpRequestCount sr + 1 then RateLimitExceeded else Passed,
               sr\<lparr> httpRequestCount := httpRequestCount sr + 1 \<rparr>)) \<and>
      createLogFunc sr now nargs =
        (if Minute \<le> now - lastLogTime sr
         then (Emitted, sr\<lparr> logCount := 1, lastLogTime := now \<rparr>)
         else (if 50 < logCount sr + 1 then Dropped else Emitted,
               sr\<lparr> logCount := logCount sr + 1 \<rparr>)))"
proof -
  have "window_budget 10 (httpRequestCount fresh_runtime) (lastRequestTime fresh_runtime) a \<le> 10"
    by (simp add: window_budget_def fresh_runtime_def)
  then have http: "passed_in_window (fst (httpRequest_calls fresh_runtime cs)) a \<le> 10"
    using http_calls_budget [of fresh_runtime cs a] by linarith
  have "window_budget 50 (logCount fresh_runtime) (lastLogTime fresh_runtime) a' \<le> 50"
    by (simp add: window_budget_def fresh_runtime_def)
  then have log: "emitted_in_window (fst (log_calls fresh_runtime cs')) a' \<le> 50"
    using log_calls_budget [of fresh_runtime cs' a'] by linarith
  have step: "1 \<le> nargs \<longrightarrow>
      createHTTPRequestFunc sr now nargs =
        (if Minute \<le> now - lastRequestTime sr
         then (Passed, sr\<lparr> httpRequestCount := 1, lastRequestTime := now \<rparr>)
         else (if 10 < httpRequestCount sr + 1 then RateLimitExceeded else Passed,
               sr\<lparr> httpRequestCount := httpRequestCount sr + 1 \<rparr>)) \<and>
      createLogFunc sr now nargs =
        (if Minute \<le> now - lastLogTime sr
         then (Emitted, sr\<lparr> logCount := 1, lastLogTime := now \<rparr>)
         else (if 50 < logCount sr + 1 then Dropped else Emitted,
               sr\<lparr> logCount := logCount sr + 1 \<rparr>))"
    by (simp add: http_step_reset http_step_count log_step_reset log_step_count not_le)
  from http log step show ?thesis by blast
qed

theorem fixed_window_limits_witness:
  "passed_in_window (fst (httpRequest_calls fresh_runtime burst_calls)) burst_start \<le> 10 \<and>
   emitted_in_window (fst (log_calls fresh_runtime [(burst_start, 1)])) burst_start \<le> 50 \<and>
   createHTTPRequestFunc fresh_runtime burst_start 1 =
     (Passed, fresh_runtime\<lparr> httpRequestCount := 1, lastRequestTime := burst_start \<rparr>) \<and>
   createLogFunc fresh_runtime burst_start 1 =
     (Emitted, fresh_runtime\<lparr> logCount := 1, lastLogTime := burst_start \<rparr>)"
  using fixed_window_limits
    [of burst_calls burst_start "[(burst_start, 1)]" burst_start 1 fresh_runtime burst_start]
  by (simp add: Minute_def burst_start_def fresh_runtime_sel emitted_in_window_def)

section \<open>Properties of \<open>ModifyRequest\<close>\<close>

lemma Header_values_Set:
  "Header_values (Header_Set h key v) name =
     (if CanonicalMIMEHeaderKey key = name then Some [v] else Header_values h name)"
  by (simp add: Header_values_def Header_Set_def update_conv')

lemma Header_values_apply_headers:
  "Header_values (apply_headers kvs h) name =
     (if written_values kvs name = [] then Header_values h name
      else Some [last (written_values kvs name)])"
proof (induction kvs arbitrary: h)
  case Nil
  then show ?case by (simp add: apply_headers_def written_values_def)
next
  case (Cons kv kvs)
  obtain key v where kv: "kv = (key, v)" by (cases kv)
  have step: "apply_headers (kv # kvs) h = apply_headers kvs (Header_Set h key v)"
    by (simp add: apply_headers_def kv)
  have wv: "written_values (kv # kvs) name =
      (if CanonicalMIMEHeaderKey key = name then v # written_values kvs name
       else written_values kvs name)"
    by (simp add: written_values_def kv)
  show ?case
    unfolding step wv Cons.IH Header_values_Set by simp
qed

text \<open>
  C1, amended. When the \<open>modifyRequest\<close> hook leaves an object in the \<open>headers\<close>
  property of the request object, \<open>ModifyRequest\<close> writes every entry of that object
  onto the outbound request with \<open>Header.Set\<close>: under each canonical name the request
  then holds, as its only value, the string form of the last entry written under that
  name, and a name that no entry of the object has keeps what it held before the hook.
  No denylist is consulted on this path: the statement holds for every key, those of
  \<open>dangerousHeaders\<close> included. Method, URL and query are not touched.
\<close>

theorem modify_request_reapplies_every_header:
  assumes "modifyRequest channelObj = Callable hook"
    and "hook (request_object req) apiKey grp = HeadersObject kvs"
  shows "\<exists>req'. ModifyRequest (ChannelObject channelObj) req apiKey grp = Inr req' \<and>
           Method req' = Method req \<and> URL req' = URL req \<and> Query req' = Query req \<and>
           (\<forall>name. Header_values (Header req') name =
              (if written_values kvs name = [] then Header_values (Header req) name
               else Some [last (written_values kvs name)]))"
  using assms by (simp add: ModifyRequest_def Header_values_apply_headers)

lemma canon_examples:
  "CanonicalMIMEHeaderKey ''Content-Length'' = ''Content-Length''"
  "CanonicalMIMEHeaderKey ''Accept'' = ''Accept''"
  by code_simp+

theorem modify_request_reapplies_every_header_witness:
  "\<exists>req'. ModifyRequest length_writing_adapter example_request () () = Inr req' \<and>
      Header_values (Header req') ''Content-Length'' = Some [''0''] \<and>
      Header_values (Header req') ''Accept'' = Some [''*/*''] \<and>
      Header_values (Header req') ''Host'' = Header_values (Header example_request) ''Host''"
proof -
  let ?kvs = "[(''Content-Length'', ''0''), (''Accept'', ''*/*'')]"
  have h1: "modifyRequest length_writing_object = Callable length_writing_hook"
    by (simp add: length_writing_object_def)
  have h2: "length_writing_hook (request_object example_request) () () = HeadersObject ?kvs"
    by (simp add: length_writing_hook_def request_object_def example_request_def first_values_def)
  from modify_request_reapplies_every_header [OF h1 h2]
  obtain req' where run: "ModifyRequest (ChannelObject length_writing_object) example_request () () = Inr req'"
    and hv: "\<And>name. Header_values (Header req') name =
              (if written_values ?kvs name = [] then Header_values (Header example_request) name
               else Some [last (written_values ?kvs name)])"
    by blast
  have w1: "written_values ?kvs ''Content-Length'' = [''0'']"
    and w2: "written_values ?kvs ''Accept'' = [''*/*'']"
    and w3: "written_values ?kvs ''Host'' = []"
    by (simp_all add: written_values_def canon_examples)
  show ?thesis
    unfolding length_writing_adapter_def
    using run hv [of "''Content-Length''"] hv [of "''Accept''"] hv [of "''Host''"]
    by (simp add: w1 w2 w3)
qed

text \<open>
  C1, as the claim states it, fails. \<open>Content-Length\<close> is on the denylist of
  \<open>isValidHeaderValue\<close>; the adapter writes it in \<open>modifyRequest\<close>, and the outbound
  request leaves \<open>ModifyRequest\<close> with the adapter's value \<open>0\<close> in place of the \<open>42\<close>
  it held before the hook.
\<close>

theorem denylisted_header_counterexample:
  "ToLower ''Content-Length'' \<in> set dangerousHeaders \<and>
   isValidHeaderValue ''Content-Length'' ''0'' = False \<and>
   Header_values (Header example_request) ''Content-Length'' = Some [''42''] \<and>
   ModifyRequest length_writing_adapter example_request () () =
     Inr (example_request\<lparr> Header := [(''Content-Length'', [''0'']), (''Accept'', [''*/*''])] \<rparr>)"
  by code_simp

section \<open>Properties of \<open>IsStreamRequest\<close>\<close>

lemma ToBoolean_False_iff:
  "ToBoolean v = False \<longleftrightarrow>
     v \<in> {JSUndefined, JSNull, JSBoolean False, JSNumber NaN, JSNumber (Finite 0), JSString ''''}"
  by (cases v rule: ToBoolean.cases) auto

text \<open>
  C8, as the claim states it, fails: an \<open>isStreamRequest\<close> hook that returns the string
  \<open>yes\<close>, which is no boolean, makes \<open>IsStreamRequest\<close> answer \<open>true\<close>.
\<close>

theorem non_boolean_stream_result_counterexample:
  "IsStreamRequest yes_adapter example_request ''{}'' = Inr True"
  by (simp add: IsStreamRequest_def yes_adapter_def yes_object_def)

text \<open>
  C8, amended. If the \<open>isStreamRequest\<close> hook throws, \<open>IsStreamRequest\<close> is \<open>false\<close>. If it
  returns a value, \<open>IsStreamRequest\<close> is the truthiness of that value (\<open>ToBoolean\<close>): a
  boolean gives itself, and a value that is no boolean gives \<open>false\<close> exactly when it is
  \<open>undefined\<close>, \<open>null\<close>, a zero, not-a-number or the empty string.
\<close>

theorem is_stream_request_truthiness:
  assumes "isStreamRequest channelObj = Callable hook"
  shows "(hook (context_object req bodyBytes) = Throws e \<longrightarrow>
            IsStreamRequest (ChannelObject channelObj) req bodyBytes = Inr False) \<and>
         (hook (context_object req bodyBytes) = Returns v \<longrightarrow>
            IsStreamRequest (ChannelObject channelObj) req bodyBytes = Inr (ToBoolean v)) \<and>
         (ToBoolean v = False \<longleftrightarrow>
            v \<in> {JSUndefined, JSNull, JSBoolean False, JSNumber NaN, JSNumber (Finite 0),
                 JSString ''''})"
  using assms ToBoolean_False_iff [of v] by (simp add: IsStreamRequest_def)

theorem is_stream_request_truthiness_witness:
  "IsStreamRequest throwing_adapter example_request ''{}'' = Inr False \<and>
   IsStreamRequest yes_adapter example_request ''{}'' = Inr (ToBoolean (JSString ''yes''))"
  using is_stream_request_truthiness
      [of throwing_object "\<lambda>context. Throws (JSString ''boom'')" example_request "''{}''"
          "JSString ''boom''" "JSString ''yes''"]
    is_stream_request_truthiness
      [of yes_object "\<lambda>context. Returns (JSString ''yes'')" example_request "''{}''"
          "JSString ''boom''" "JSString ''yes''"]
  by (simp add: throwing_adapter_def yes_adapter_def throwing_object_def yes_object_def)

section \<open>Properties of the store queries\<close>

lemma fold_least_in: "fold (\<lambda>x m. if ID x < ID m then x else m) rs r \<in> set (r # rs)"
proof (induction rs arbitrary: r)
  case Nil
  then show ?case by simp
next
  case (Cons a rs)
  show ?case using Cons.IH [of a] Cons.IH [of r] by auto
qed

lemma db_first_SomeD:
  assumes "db_first P rows = Some r"
  shows "P r \<and> r \<in> set rows"
proof -
  from assms obtain x xs where f: "filter P rows = x # xs"
    and r: "r = fold (\<lambda>x m. if ID x < ID m then x else m) xs x"
    by (auto simp: db_first_def split: list.splits)
  have "r \<in> set (filter P rows)" unfolding f r by (rule fold_least_in)
  then show ?thesis by simp
qed

lemma db_first_None_iff: "db_first P rows = None \<longleftrightarrow> \<not> list_ex P rows"
proof -
  have "filter P rows = [] \<longleftrightarrow> \<not> list_ex P rows"
    by (auto simp: list_ex_iff filter_empty_conv)
  then show ?thesis
    by (cases "filter P rows") (simp_all add: db_first_def)
qed

lemma db_first_marked:
  assumes "db_first P rows = Some script"
  shows "\<exists>r. db_first (\<lambda>r. ID r = ID script)
               (map (\<lambda>r. if ID r = ID script then mark_error now err r else r) rows) = Some r
             \<and> Status r = ''error'' \<and> ErrorMsg r = Error err \<and> LastError r = Some now"
proof -
  let ?rows = "map (\<lambda>r. if ID r = ID script then mark_error now err r else r) rows"
  from db_first_SomeD [OF assms] have mem: "script \<in> set rows" by simp
  then have "mark_error now err script \<in> set ?rows" by force
  then have "list_ex (\<lambda>r. ID r = ID script) ?rows"
    unfolding list_ex_iff by (rule rev_bexI) (simp add: mark_error_def)
  then obtain r where r: "db_first (\<lambda>r. ID r = ID script) ?rows = Some r"
    using db_first_None_iff [of "\<lambda>r. ID r = ID script" ?rows]
    by (cases "db_first (\<lambda>r. ID r = ID script) ?rows") auto
  from db_first_SomeD [OF r] have "ID r = ID script" and "r \<in> set ?rows" by blast+
  then obtain r0 where "r = (if ID r0 = ID script then mark_error now err r0 else r0)"
    unfolding set_map by blast
  with \<open>ID r = ID script\<close>
  have "Status r = ''error'' \<and> ErrorMsg r = Error err \<and> LastError r = Some now"
    by (cases "ID r0 = ID script") (auto simp: mark_error_def)
  with r show ?thesis by blast
qed

section \<open>Properties of \<open>GetChannel\<close>\<close>

lemma cache_hit_None_iff:
  "cache_hit h f grp = None \<longleftrightarrow>
     channelCache f (group_ID grp) = None \<or>
     (\<exists>channel. channelCache f (group_ID grp) = Some channel \<and> IsConfigStale h channel grp)"
  by (auto simp: cache_hit_def split: option.splits)

lemma store_channel_simps:
  "store_channel f grp (Inr ch) =
     (Inr ch, f\<lparr> channelCache := (channelCache f)(group_ID grp \<mapsto> ch) \<rparr>)"
  "store_channel f grp (Inl err) = (Inl err, f)"
  by (simp_all add: store_channel_def)

text \<open>
  C6. When the cache holds no instance for the group, or holds one whose configuration
  is stale, \<open>GetChannel\<close> takes the dynamic constructor registered for the group's channel
  type; without one, the static constructor; without either, the enabled catalogue entry
  of that channel type with the least id. What a registered constructor returns ends the
  call: an error is returned as it is, an instance is stored under the group id and
  returned (\<open>store_channel\<close>). When the catalogue entry is found and building the
  instance from it fails, the call fails, the cache is left as it was, and the row of the
  entry holds the status \<open>error\<close> and the message of the failure; when building
  succeeds, the instance is stored under the group id and returned.
\<close>

theorem get_channel_resolution_order:
  assumes miss: "channelCache f (group_ID grp) = None \<or>
     (\<exists>channel. channelCache f (group_ID grp) = Some channel \<and> IsConfigStale h channel grp)"
  shows
    "(dynamicChannels f (group_ChannelType grp) = Some dyn \<longrightarrow>
        GetChannel h f now grp = store_channel f grp (dyn grp)) \<and>
     (dynamicChannels f (group_ChannelType grp) = None \<and>
      staticChannels f (group_ChannelType grp) = Some stat \<longrightarrow>
        GetChannel h f now grp = store_channel f grp (stat grp)) \<and>
     (dynamicChannels f (group_ChannelType grp) = None \<and>
      staticChannels f (group_ChannelType grp) = None \<and>
      db_first (\<lambda>r. ChannelType r = group_ChannelType grp \<and> Status r = ''enabled'') (db f)
        = Some script \<longrightarrow>
        (NewScriptChannel h grp script = Inr ch \<longrightarrow>
           GetChannel h f now grp = store_channel f grp (Inr ch)) \<and>
        (NewScriptChannel h grp script = Inl err \<longrightarrow>
           (\<exists>e f'. GetChannel h f now grp = (Inl e, f') \<and>
              channelCache f' = channelCache f \<and>
              (\<exists>r. db_first (\<lambda>r. ID r = ID script) (db f') = Some r \<and>
                   Status r = ''error'' \<and> ErrorMsg r = Error err)))) \<and>
     store_channel f grp (Inr ch) =
       (Inr ch, f\<lparr> channelCache := (channelCache f)(group_ID grp \<mapsto> ch) \<rparr>) \<and>
     store_channel f grp (Inl err) = (Inl err, f)"
proof -
  from miss have miss': "cache_hit h f grp = None"
    by (simp add: cache_hit_None_iff)
  have d: "dynamicChannels f (group_ChannelType grp) = Some dyn \<longrightarrow>
        GetChannel h f now grp = store_channel f grp (dyn grp)"
    using miss' by (simp add: GetChannel_def)
  have s: "dynamicChannels f (group_ChannelType grp) = None \<and>
      staticChannels f (group_ChannelType grp) = Some stat \<longrightarrow>
        GetChannel h f now grp = store_channel f grp (stat grp)"
    using miss' by (simp add: GetChannel_def)
  have ok: "dynamicChannels f (group_ChannelType grp) = None \<Longrightarrow>
      staticChannels f (group_ChannelType grp) = None \<Longrightarrow>
      db_first (\<lambda>r. ChannelType r = group_ChannelType grp \<and> Status r = ''enabled'') (db f)
        = Some script \<Longrightarrow> NewScriptChannel h grp script = Inr ch \<Longrightarrow>
           GetChannel h f now grp = store_channel f grp (Inr ch)"
    using miss' by (simp add: GetChannel_def createScriptChannel_def)
  have bad: "\<exists>e f'. GetChannel h f now grp = (Inl e, f') \<and>
              channelCache f' = channelCache f \<and>
              (\<exists>r. db_first (\<lambda>r. ID r = ID script) (db f') = Some r \<and>
                   Status r = ''error'' \<and> ErrorMsg r = Error err)"
    if "dynamicChannels f (group_ChannelType grp) = None"
      "staticChannels f (group_ChannelType grp) = None"
      "db_first (\<lambda>r. ChannelType r = group_ChannelType grp \<and> Status r = ''enabled'') (db f)
        = Some script" "NewScriptChannel h grp script = Inl err"
  proof -
    from db_first_marked [OF that(3), of now err]
    obtain r where "db_first (\<lambda>r. ID r = ID script)
               (map (\<lambda>r. if ID r = ID script then mark_error now err r else r) (db f)) = Some r"
      "Status r = ''error''" "ErrorMsg r = Error err" by blast
    then show ?thesis
      using miss' that by (simp add: GetChannel_def createScriptChannel_def)
  qed
  from d s ok bad store_channel_simps [of f grp] show ?thesis by blast
qed

lemma lazy_factory_first:
  "db_first (\<lambda>r. ChannelType r = group_ChannelType demo_group \<and> Status r = ''enabled'')
     (db lazy_factory) = Some grok_bad"
  by (simp add: db_first_def lazy_factory_def demo_group_def grok_bad_def grok_v1_def
        other_script_def)

theorem get_channel_resolution_order_witness:
  "GetChannel demo_host (demo_factory\<lparr> channelCache := Map.empty \<rparr>) 5 demo_group =
     (Inr ''g:v1'', demo_factory\<lparr> channelCache := [7 \<mapsto> ''g:v1''] \<rparr>) \<and>
   (\<exists>e f'. GetChannel demo_host lazy_factory 5 demo_group = (Inl e, f') \<and>
      channelCache f' = channelCache lazy_factory \<and>
      (\<exists>r. db_first (\<lambda>r. ID r = ID grok_bad) (db f') = Some r \<and>
           Status r = ''error'' \<and> ErrorMsg r = ''failed to create channel instance''))"
proof -
  let ?f = "demo_factory\<lparr> channelCache := Map.empty \<rparr>"
  let ?err = "Errorf ''failed to create channel instance''"
  have miss1: "channelCache ?f (group_ID demo_group) = None \<or>
     (\<exists>channel. channelCache ?f (group_ID demo_group) = Some channel
        \<and> IsConfigStale demo_host channel demo_group)"
    by simp
  have dyn: "dynamicChannels ?f (group_ChannelType demo_group)
               = Some (scriptConstructor demo_host grok_v1)"
    by (simp add: demo_factory_def demo_group_def)
  have made: "scriptConstructor demo_host grok_v1 demo_group = Inr ''g:v1''"
    by (simp add: scriptConstructor_def demo_host_def grok_v1_def demo_group_def)
  have a: "GetChannel demo_host ?f 5 demo_group =
     (Inr ''g:v1'', demo_factory\<lparr> channelCache := [7 \<mapsto> ''g:v1''] \<rparr>)"
    using get_channel_resolution_order
        [OF miss1, of "scriptConstructor demo_host grok_v1" 5
           "scriptConstructor demo_host grok_v1" grok_v1 "''g:v1''" ?err]
      dyn made
    by (simp add: demo_group_def)
  have miss2: "channelCache lazy_factory (group_ID demo_group) = None \<or>
     (\<exists>channel. channelCache lazy_factory (group_ID demo_group) = Some channel
        \<and> IsConfigStale demo_host channel demo_group)"
    by (simp add: lazy_factory_def)
  have none: "dynamicChannels lazy_factory (group_ChannelType demo_group) = None"
    "staticChannels lazy_factory (group_ChannelType demo_group) = None"
    by (simp_all add: lazy_factory_def)
  have fails: "NewScriptChannel demo_host demo_group grok_bad = Inl ?err"
    by (simp add: demo_host_def grok_bad_def)
  have b: "\<exists>e f'. GetChannel demo_host lazy_factory 5 demo_group = (Inl e, f') \<and>
      channelCache f' = channelCache lazy_factory \<and>
      (\<exists>r. db_first (\<lambda>r. ID r = ID grok_bad) (db f') = Some r \<and>
           Status r = ''error'' \<and> ErrorMsg r = ''failed to create channel instance'')"
    using get_channel_resolution_order
        [OF miss2, of "scriptConstructor demo_host grok_v1" 5
           "scriptConstructor demo_host grok_v1" grok_bad "''g:v1''" ?err]
      none lazy_factory_first fails
    by simp
  from a b show ?thesis by blast
qed

section \<open>Properties of the security validator\<close>

lemma ValidateScript_static_checks:
  "ValidateScript v lib w1 w2 script =
     (case static_checks v lib script of
        Some err \<Rightarrow> Returned (Some err)
      | None \<Rightarrow>
          and_then (validateSyntax lib w1 script) (\<lambda>syntax.
            case syntax of
              Some err \<Rightarrow> Returned (Some err)
            | None \<Rightarrow> validateStructure lib w2 script))"
  by (simp add: ValidateScript_def static_checks_def split: option.splits)

text \<open>The example scripts pass the checks that come before the engine.\<close>

lemma plain_script_patterns:
  "forbidden_loop demo_library (forbiddenPatterns NewScriptSecurityValidator) plain_script = None"
  by (simp add: NewScriptSecurityValidator_def demo_library_def plain_script_def pattern_def)

lemma coin_script_patterns:
  "forbidden_loop demo_library (forbiddenPatterns NewScriptSecurityValidator) coin_script = None"
  by (simp add: NewScriptSecurityValidator_def demo_library_def coin_script_def
        plain_script_def pattern_def)

lemma null_script_patterns:
  "forbidden_loop demo_library (forbiddenPatterns NewScriptSecurityValidator) null_script = None"
  by (simp add: NewScriptSecurityValidator_def demo_library_def null_script_def pattern_def)

lemma plain_script_complexity: "validateComplexity demo_library plain_script = None"
  by (simp add: validateComplexity_def demo_library_def plain_script_def pattern_def Let_def
        isLower_def isUpper_def isDigit_def)

lemma coin_script_complexity: "validateComplexity demo_library coin_script = None"
  by (simp add: validateComplexity_def demo_library_def coin_script_def plain_script_def
        pattern_def Let_def isLower_def isUpper_def isDigit_def)

lemma null_script_complexity: "validateComplexity demo_library null_script = None"
  by (simp add: validateComplexity_def demo_library_def null_script_def pattern_def Let_def
        isLower_def isUpper_def isDigit_def)

lemma example_script_sizes:
  "\<not> length plain_script > maxScriptSize NewScriptSecurityValidator"
  "\<not> length coin_script > maxScriptSize NewScriptSecurityValidator"
  "\<not> length null_script > maxScriptSize NewScriptSecurityValidator"
  by (simp_all add: plain_script_def coin_script_def null_script_def
        NewScriptSecurityValidator_def)

lemma example_scripts_static:
  "static_checks NewScriptSecurityValidator demo_library plain_script = None"
  "static_checks NewScriptSecurityValidator demo_library coin_script = None"
  "static_checks NewScriptSecurityValidator demo_library null_script = None"
  using example_script_sizes
  by (simp_all add: static_checks_def plain_script_patterns coin_script_patterns
        null_script_patterns plain_script_complexity coin_script_complexity
        null_script_complexity)

lemma example_scripts_distinct:
  "coin_script \<noteq> plain_script" "null_script \<noteq> plain_script" "null_script \<noteq> coin_script"
  by (simp_all add: coin_script_def plain_script_def null_script_def)

text \<open>The stand-in engine on the example scripts.\<close>

lemma demo_goja_simps:
  "goja_New_RunString demo_library w plain_script = Returned (Inr (loaded_vm plain_adapter))"
  "w < 1 / 2 \<Longrightarrow> goja_New_RunString demo_library w coin_script = Returned (Inl (Errorf ''1''))"
  "\<not> w < 1 / 2 \<Longrightarrow>
     goja_New_RunString demo_library w coin_script = Returned (Inr (loaded_vm plain_adapter))"
  "goja_New_RunString demo_library w null_script = Returned (Inr (loaded_vm Null))"
  using example_scripts_distinct by (simp_all add: demo_library_def demo_goja_def)

lemma check_channel_plain_adapter: "check_channel plain_adapter = Returned None"
  by (simp add: check_channel_def check_metadata_def plain_adapter_def requiredMethods_def
        requiredMetadataFields_def no_properties_def)

lemma validateStructure_loaded_vm:
  "goja_New_RunString lib w script = Returned (Inr (loaded_vm returned)) \<Longrightarrow>
   validateStructure lib w script = check_channel returned"
  by (simp add: validateStructure_def loaded_vm_def no_properties_def)

lemma plain_script_valid:
  "ValidateScript NewScriptSecurityValidator demo_library w1 w2 plain_script = Returned None"
  by (simp add: ValidateScript_static_checks example_scripts_static validateSyntax_def
        demo_goja_simps validateStructure_loaded_vm check_channel_plain_adapter)

lemma coin_script_accepted:
  assumes "\<not> w1 < 1 / 2" and "\<not> w2 < 1 / 2"
  shows "ValidateScript NewScriptSecurityValidator demo_library w1 w2 coin_script = Returned None"
  using assms
  by (simp add: ValidateScript_static_checks example_scripts_static validateSyntax_def
        demo_goja_simps validateStructure_loaded_vm check_channel_plain_adapter)

lemma coin_script_rejected:
  assumes "w1 < 1 / 2"
  shows "ValidateScript NewScriptSecurityValidator demo_library w1 w2 coin_script =
           Returned (Some (Wrapped ''syntax error'' (Errorf ''1'')))"
  using assms
  by (simp add: ValidateScript_static_checks example_scripts_static validateSyntax_def
        demo_goja_simps)

lemma null_script_panics:
  "ValidateScript NewScriptSecurityValidator demo_library w1 w2 null_script = Panics"
  by (simp add: ValidateScript_static_checks example_scripts_static validateSyntax_def
        demo_goja_simps validateStructure_loaded_vm check_channel_def)

text \<open>
  C9, as the claim states it, fails. \<open>validateSyntax\<close> and \<open>validateStructure\<close> run the
  submitted script, and no forbidden pattern keeps a script from \<open>Math.random\<close> or from
  the clock. \<open>coin_script\<close> passes the checks on its text; the validator accepts it
  when the random numbers that its two runs draw are \<open>3/4\<close> and \<open>3/4\<close>, and rejects the
  same text, returning an error, when the first run draws \<open>1/4\<close>.
\<close>

theorem validation_depends_on_random_draw_counterexample:
  "ValidateScript NewScriptSecurityValidator demo_library (3 / 4) (3 / 4) coin_script
     = Returned None \<and>
   ValidateScript NewScriptSecurityValidator demo_library (1 / 4) (3 / 4) coin_script
     \<noteq> Returned None \<and>
   ValidateScript NewScriptSecurityValidator demo_library (1 / 4) (3 / 4) coin_script
     \<noteq> Panics \<and>
   ValidateScript NewScriptSecurityValidator demo_library (1 / 4) (3 / 4) coin_script
     \<noteq> Hangs"
proof -
  have "ValidateScript NewScriptSecurityValidator demo_library (3 / 4) (3 / 4) coin_script
          = Returned None"
    by (rule coin_script_accepted) simp_all
  moreover have "ValidateScript NewScriptSecurityValidator demo_library (1 / 4) (3 / 4) coin_script
          = Returned (Some (Wrapped ''syntax error'' (Errorf ''1'')))"
    by (rule coin_script_rejected) simp
  ultimately show ?thesis by simp
qed

text \<open>
  C9, amended. The validator keeps no state and reads the script text only, no metadata.
  A script that one of the checks on the text rejects (size, forbidden patterns,
  complexity) gets that rejection whatever the engine would read from outside; and two
  invocations return the same result, with the same reason, whenever the engine runs
  the script in the same way in both, in the VM of \<open>validateSyntax\<close> and in that of
  \<open>validateStructure\<close>.
\<close>

theorem validation_determined_by_engine_runs:
  "(static_checks v lib script = Some err \<longrightarrow>
      ValidateScript v lib w1 w2 script = Returned (Some err)) \<and>
   (goja_New_RunString lib w1 script = goja_New_RunString lib w1' script \<and>
    goja_New_RunString lib w2 script = goja_New_RunString lib w2' script \<longrightarrow>
      ValidateScript v lib w1 w2 script = ValidateScript v lib w1' w2' script)"
  by (simp add: ValidateScript_static_checks validateSyntax_def validateStructure_def
        split: option.splits)

lemma eval_call_static:
  "static_checks NewScriptSecurityValidator demo_library ''eval (1)'' =
     Some (Errorf (''script contains forbidden pattern: '' @ pattern ''eval/s*/(''))"
  by (simp add: static_checks_def NewScriptSecurityValidator_def demo_library_def pattern_def)

theorem validation_determined_by_engine_runs_witness:
  "ValidateScript NewScriptSecurityValidator demo_library (1 / 4) (3 / 4) ''eval (1)'' =
     Returned (Some (Errorf (''script contains forbidden pattern: '' @ pattern ''eval/s*/(''))) \<and>
   ValidateScript NewScriptSecurityValidator demo_library (1 / 4) (1 / 4) plain_script =
     ValidateScript NewScriptSecurityValidator demo_library (3 / 4) (3 / 4) plain_script"
proof -
  have run: "goja_New_RunString demo_library (1 / 4) plain_script =
             goja_New_RunString demo_library (3 / 4) plain_script"
    by (simp add: demo_goja_simps)
  from validation_determined_by_engine_runs
         [of NewScriptSecurityValidator demo_library "''eval (1)''" _ "1 / 4" "3 / 4"]
       eval_call_static
  have "ValidateScript NewScriptSecurityValidator demo_library (1 / 4) (3 / 4) ''eval (1)'' =
     Returned (Some (Errorf (''script contains forbidden pattern: '' @ pattern ''eval/s*/('')))"
    by blast
  moreover from validation_determined_by_engine_runs
         [of NewScriptSecurityValidator demo_library plain_script _ "1 / 4" "1 / 4" "3 / 4" "3 / 4"]
       run
  have "ValidateScript NewScriptSecurityValidator demo_library (1 / 4) (1 / 4) plain_script =
     ValidateScript NewScriptSecurityValidator demo_library (3 / 4) (3 / 4) plain_script"
    by blast
  ultimately show ?thesis by (rule conjI)
qed

section \<open>Properties of \<open>ScriptService\<close> and of the create handler\<close>

lemma list_ex_db_first: "list_ex P rows \<Longrightarrow> \<exists>r. db_first P rows = Some r"
  using db_first_None_iff [of P rows] by (cases "db_first P rows") auto

text \<open>
  \<open>UpdateScript\<close> adds no check to those of the store: for a patch that carries no script
  its answer is the store's.
\<close>

lemma UpdateScript_without_script:
  assumes "db_first (\<lambda>r. ID r = ident) rows = Some script" and "p_script p = None"
  shows "UpdateScript lib w1 w2 sch rows now ident p =
           (case db_updates sch rows now script p of
              Inl err \<Rightarrow> Returned (Inl err, rows)
            | Inr (script', rows') \<Rightarrow> Returned (Inr script', rows'))"
  using assms by (simp add: UpdateScript_def Let_def)

lemma other_script_first:
  "db_first (\<lambda>r. ID r = 2) [grok_v1, other_script] = Some other_script"
  by (simp add: db_first_def grok_v1_def other_script_def)


text \<open>
  With the index that the spec gives the table, it is the store that refuses the same
  patch, and \<open>UpdateScript\<close> passes the error of the store on.
\<close>

lemma update_refused_by_unique_index:
  "UpdateScript demo_library 0 0 spec_schema [grok_v1, other_script] 9 2 to_grok =
   Returned (Inl (ErrDatabase ''unique constraint failed: channel_type''),
             [grok_v1, other_script])"
proof -
  have no_script: "p_script to_grok = None" by (simp add: to_grok_def)
  have store: "db_updates spec_schema [grok_v1, other_script] 9 other_script to_grok =
               Inl (ErrDatabase ''unique constraint failed: channel_type'')"
    by (simp add: db_updates_def spec_schema_def to_grok_def grok_v1_def other_script_def)
  show ?thesis
    by (simp add: UpdateScript_without_script [OF other_script_first no_script] store)
qed

text \<open>
  A create request for a channel type that the catalogue holds: what the service returns
  follows the outcome of the validation, and nothing is written.
\<close>

lemma create_duplicate_service:
  assumes "list_ex (\<lambda>r. ChannelType r = ChannelType script) rows"
  shows "CreateScript lib w1 w2 sch rows now script =
     (case ValidateScript NewScriptSecurityValidator lib w1 w2 (Script script) of
        Panics \<Rightarrow> Panics
      | Hangs \<Rightarrow> Hangs
      | Returned None \<Rightarrow> Returned (Inl (Errorf (already_exists (ChannelType script))), rows)
      | Returned (Some err) \<Rightarrow>
          Returned (Inl (Wrapped ''script validation failed''
                           (Wrapped ''security validation failed'' err)), rows))"
proof -
  from list_ex_db_first [OF assms] obtain r
    where r: "db_first (\<lambda>r. ChannelType r = ChannelType script) rows = Some r" by blast
  show ?thesis
    by (cases "ValidateScript NewScriptSecurityValidator lib w1 w2 (Script script)")
       (simp_all add: CreateScript_def validateScriptSyntax_def r split: option.splits)
qed

text \<open>
  C5, as the claim states it, fails. The catalogue holds an entry of channel type
  \<open>grok\<close>; a create request for the same channel type, with a script that passes
  validation, gets the error \<open>channel type 'grok' already exists\<close> from the service, and
  the handler answers with the internal-server error and the fixed message
  \<open>Failed to create script\<close>, not with a client error that carries the message of the
  service.
\<close>

theorem create_duplicate_counterexample:
  "handler_CreateScript demo_library 0 0 spec_schema [grok_v1, other_script] 9 (Inr grok_request) =
     Returned (ResponseError ErrInternalServer ''Failed to create script'',
               [grok_v1, other_script]) \<and>
   CreateScript demo_library 0 0 spec_schema [grok_v1, other_script] 9
       (script_of_request grok_request) =
     Returned (Inl (Errorf (already_exists ''grok'')), [grok_v1, other_script]) \<and>
   ResponseError ErrInternalServer ''Failed to create script''
     \<noteq> (ResponseError ErrBadRequest (already_exists ''grok'') :: ChannelScript response) \<and>
   ResponseError ErrInternalServer ''Failed to create script''
     \<noteq> (ResponseError ErrValidation (already_exists ''grok'') :: ChannelScript response)"
proof -
  have first: "db_first (\<lambda>r. ChannelType r = ''grok'') [grok_v1, other_script] = Some grok_v1"
    by (simp add: db_first_def grok_v1_def other_script_def)
  have "CreateScript demo_library 0 0 spec_schema [grok_v1, other_script] 9
          (script_of_request grok_request) =
        Returned (Inl (Errorf (already_exists ''grok'')), [grok_v1, other_script])"
    by (simp add: CreateScript_def validateScriptSyntax_def script_of_request_def
          grok_request_def plain_script_valid first)
  then show ?thesis by (simp add: handler_CreateScript_def)
qed

text \<open>
  C5, amended. Creating a catalogue entry via \<open>POST /scripts\<close> with a channel type that
  an existing entry already has fails without persisting. When the validation of the
  script returns, the handler answers with the internal-server error and the message
  \<open>Failed to create script\<close>, and the service call behind it has returned an error that
  the handler only logs: \<open>channel type '<type>' already exists\<close> for a script that
  passes validation, the wrapped validation error otherwise. When the validation
  panics (the \<open>exports()\<close> of the script returns \<open>null\<close> or \<open>undefined\<close>) or does not return,
  so do the service call and the handler, and there is no answer.
\<close>

theorem create_duplicate_channel_type:
  assumes "list_ex (\<lambda>r. ChannelType r = req_channel_type req) rows"
  shows "handler_CreateScript lib w1 w2 sch rows now (Inr req) =
           (case ValidateScript NewScriptSecurityValidator lib w1 w2 (req_script req) of
              Panics \<Rightarrow> Panics
            | Hangs \<Rightarrow> Hangs
            | Returned result \<Rightarrow>
                Returned (ResponseError ErrInternalServer ''Failed to create script'', rows)) \<and>
         CreateScript lib w1 w2 sch rows now (script_of_request req) =
           (case ValidateScript NewScriptSecurityValidator lib w1 w2 (req_script req) of
              Panics \<Rightarrow> Panics
            | Hangs \<Rightarrow> Hangs
            | Returned None \<Rightarrow>
                Returned (Inl (Errorf (already_exists (req_channel_type req))), rows)
            | Returned (Some err) \<Rightarrow>
                Returned (Inl (Wrapped ''script validation failed''
                                 (Wrapped ''security validation failed'' err)), rows))"
proof -
  have sel: "ChannelType (script_of_request req) = req_channel_type req"
    "Script (script_of_request req) = req_script req"
    by (simp_all add: script_of_request_def)
  have "list_ex (\<lambda>r. ChannelType r = ChannelType (script_of_request req)) rows"
    using assms by (simp add: sel)
  from create_duplicate_service [OF this, of lib w1 w2 sch now]
  have service: "CreateScript lib w1 w2 sch rows now (script_of_request req) =
           (case ValidateScript NewScriptSecurityValidator lib w1 w2 (req_script req) of
              Panics \<Rightarrow> Panics
            | Hangs \<Rightarrow> Hangs
            | Returned None \<Rightarrow>
                Returned (Inl (Errorf (already_exists (req_channel_type req))), rows)
            | Returned (Some err) \<Rightarrow>
                Returned (Inl (Wrapped ''script validation failed''
                                 (Wrapped ''security validation failed'' err)), rows))"
    unfolding sel .
  have "handler_CreateScript lib w1 w2 sch rows now (Inr req) =
           (case ValidateScript NewScriptSecurityValidator lib w1 w2 (req_script req) of
              Panics \<Rightarrow> Panics
            | Hangs \<Rightarrow> Hangs
            | Returned result \<Rightarrow>
                Returned (ResponseError ErrInternalServer ''Failed to create script'', rows))"
  proof (cases "ValidateScript NewScriptSecurityValidator lib w1 w2 (req_script req)")
    case Panics
    with service show ?thesis by (simp add: handler_CreateScript_def)
  next
    case Hangs
    with service show ?thesis by (simp add: handler_CreateScript_def)
  next
    case (Returned result)
    with service show ?thesis by (cases result) (simp_all add: handler_CreateScript_def)
  qed
  then show ?thesis using service by (rule conjI)
qed

text \<open>
  The theorem at two requests for the channel type \<open>grok\<close>: one with a script that
  passes validation, one with a script whose \<open>exports()\<close> returns \<open>null\<close>.
\<close>

theorem create_duplicate_channel_type_witness:
  "handler_CreateScript demo_library 0 0 spec_schema [grok_v1, other_script] 9 (Inr grok_request) =
     Returned (ResponseError ErrInternalServer ''Failed to create script'',
               [grok_v1, other_script]) \<and>
   CreateScript demo_library 0 0 spec_schema [grok_v1, other_script] 9
       (script_of_request grok_request) =
     Returned (Inl (Errorf (''channel type '' @ [CHR 0x27] @ ''grok'' @ [CHR 0x27] @
                            '' already exists'')), [grok_v1, other_script]) \<and>
   handler_CreateScript demo_library 0 0 spec_schema [grok_v1, other_script] 9
       (Inr (grok_request\<lparr> req_script := null_script \<rparr>)) = Panics \<and>
   CreateScript demo_library 0 0 spec_schema [grok_v1, other_script] 9
       (script_of_request (grok_request\<lparr> req_script := null_script \<rparr>)) = Panics"
proof -
  have ex: "list_ex (\<lambda>r. ChannelType r = req_channel_type grok_request) [grok_v1, other_script]"
    "list_ex (\<lambda>r. ChannelType r = req_channel_type (grok_request\<lparr> req_script := null_script \<rparr>))
       [grok_v1, other_script]"
    by (simp_all add: grok_request_def grok_v1_def)
  have script: "req_script grok_request = plain_script"
    "req_channel_type grok_request = ''grok''"
    by (simp_all add: grok_request_def)
  from create_duplicate_channel_type [OF ex(1), of demo_library 0 0 spec_schema 9]
       create_duplicate_channel_type [OF ex(2), of demo_library 0 0 spec_schema 9]
  show ?thesis
    by (simp add: script plain_script_valid null_script_panics already_exists_def)
qed

section \<open>Properties of the reload passes\<close>




















end
